theory Spec2Isabelle
  imports Complex_Main "HOL-Library.AList"
begin

section \<open>Ride dispatch over sockets: the server state and its handlers\<close>

text \<open>
  The development follows \<^verbatim>\<open>src/socket.js\<close>. The module keeps three in-memory
  registries (\<^verbatim>\<open>rides\<close>, \<^verbatim>\<open>activeDriverSockets\<close>, \<^verbatim>\<open>processingRides\<close>), talks to four
  MongoDB collections (\<^verbatim>\<open>RaidId\<close>, \<^verbatim>\<open>Ride\<close>, \<^verbatim>\<open>Driver\<close>, \<^verbatim>\<open>DriverLocation\<close>) and
  emits socket.io events. All of it is one explicit state record here; a handler is a
  function from the state to the state. What a handler cannot decide by itself (the
  clock, \<^verbatim>\<open>Math.random()\<close>, whether a database call throws, the \<^verbatim>\<open>_id\<close> MongoDB gives
  a new document) is read from an environment record.

  Payload fields are optional values, what the handler reads from the payload:
  \<open>None\<close> is a field that reads as \<^verbatim>\<open>undefined\<close> (the client left it out). Identifiers and names are strings, coordinates and distances are
  rational numbers (they are only compared with zero and passed on).
\<close>

subsection \<open>JavaScript strings and truthiness\<close>

definition digit_char :: "nat \<Rightarrow> char" where
  "digit_char d = ''0123456789'' ! (d mod 10)"

definition is_digit :: "char \<Rightarrow> bool" where
  "is_digit c = (c \<in> set ''0123456789'')"

text \<open>\<^verbatim>\<open>Number.prototype.toString()\<close> of a non-negative integer: its decimal digits.\<close>

fun toString :: "nat \<Rightarrow> string" where
  "toString n = (if n < 10 then [digit_char n] else toString (n div 10) @ [digit_char n])"

declare toString.simps [simp del]

text \<open>\<^verbatim>\<open>s.padStart(n, c)\<close> for a one-character pad, and \<^verbatim>\<open>s.slice(-n)\<close>.\<close>

definition padStart :: "nat \<Rightarrow> char \<Rightarrow> string \<Rightarrow> string" where
  "padStart n c s = replicate (n - length s) c @ s"

definition slice_last :: "nat \<Rightarrow> string \<Rightarrow> string" where
  "slice_last n s = drop (length s - n) s"

text \<open>
  Truthiness: a string is falsy when it is missing or empty, a number when it is missing
  or zero, an object only when it is missing.
\<close>

fun truthy_str :: "string option \<Rightarrow> bool" where
  "truthy_str None = False"
| "truthy_str (Some s) = (s \<noteq> [])"

fun truthy_num :: "rat option \<Rightarrow> bool" where
  "truthy_num None = False"
| "truthy_num (Some x) = (x \<noteq> 0)"

fun truthy_obj :: "'a option \<Rightarrow> bool" where
  "truthy_obj None = False"
| "truthy_obj (Some x) = True"

text \<open>\<^verbatim>\<open>x || d\<close> on strings and on numbers.\<close>

fun or_str :: "string option \<Rightarrow> string \<Rightarrow> string" where
  "or_str None d = d"
| "or_str (Some s) d = (if s = [] then d else s)"

fun or_num :: "rat option \<Rightarrow> rat \<Rightarrow> rat" where
  "or_num None d = d"
| "or_num (Some x) d = (if x = 0 then d else x)"

subsection \<open>The environment of one handler run\<close>

datatype dbop =
    IncSequence | ResetSequence | SaveLocation
  | FindRide | ValidateRide | SaveRide | FindRideAgain
  | FindDriver | SaveAccepted

record env =
  now :: nat                          \<comment> \<open>\<^verbatim>\<open>Date.now()\<close>, in milliseconds\<close>
  random_id :: rat                    \<comment> \<open>the \<^verbatim>\<open>Math.random()\<close> of the fallback identifier\<close>
  random_otp :: rat                   \<comment> \<open>the \<^verbatim>\<open>Math.random()\<close> of a generated OTP\<close>
  dbError :: "dbop \<Rightarrow> string option"  \<comment> \<open>\<open>Some msg\<close>: the call throws an error with that message\<close>
  newId :: string                     \<comment> \<open>the \<^verbatim>\<open>_id\<close> of a document saved in this run\<close>
  typeError :: string                 \<comment> \<open>the message the engine gives a \<^verbatim>\<open>TypeError\<close>\<close>

subsection \<open>Documents, registries, events\<close>

record place =
  address :: "string option"
  lat :: "rat option"
  lng :: "rat option"

record stored_place =
  addr :: string
  plat :: "rat option"
  plng :: "rat option"

text \<open>The payload of \<^verbatim>\<open>bookRide\<close>.\<close>

record book_request =
  userId :: "string option"
  customerId :: "string option"
  userName :: "string option"
  userMobile :: "string option"
  pickup :: "place option"
  drop_place :: "place option"
  vehicleType :: "string option"
  estimatedPrice :: "rat option"
  distance :: "string option"
  travelTime :: "string option"
  wantReturn :: "bool option"

text \<open>
  A document of the \<^verbatim>\<open>Ride\<close> collection, with the fields the handlers write and read.
  The schema file is not part of the sources; the locale-formatted \<^verbatim>\<open>Raid_time\<close> and the
  \<^verbatim>\<open>parseFloat\<close> of \<^verbatim>\<open>distanceKm\<close> are left out.
\<close>

record ride_doc =
  doc_id :: string
  RAID_ID :: string
  user :: string
  ride_customerId :: string
  name :: string
  pickupLocation :: string
  dropoffLocation :: string
  fare :: rat
  rideType :: "string option"
  otp :: "string option"
  ride_distance :: string
  ride_travelTime :: string
  isReturnTrip :: bool
  status :: string
  Raid_date :: nat
  ride_pickup :: stored_place
  ride_drop :: stored_place
  ride_driverId :: "string option"
  ride_driverName :: "string option"
  driverMobile :: "string option"
  ride_userMobile :: "string option"

record driver_doc =
  driver_driverId :: string
  phone :: "string option"
  coordinates :: "(rat \<times> rat) option"    \<comment> \<open>\<^verbatim>\<open>location.coordinates\<close>: longitude, latitude\<close>
  driver_vehicleType :: "string option"

record location_doc =
  loc_driverId :: "string option"
  loc_driverName :: "string option"
  loc_latitude :: "rat option"
  loc_longitude :: "rat option"
  loc_vehicleType :: string
  loc_status :: string
  loc_timestamp :: nat

text \<open>An entry of \<^verbatim>\<open>activeDriverSockets\<close>.\<close>

record presence =
  socketId :: nat
  p_driverId :: string
  p_driverName :: "string option"
  p_latitude :: "rat option"
  p_longitude :: "rat option"
  p_vehicleType :: string
  lastUpdate :: nat
  p_status :: string
  isOnline :: bool

text \<open>
  An entry of \<^verbatim>\<open>rides\<close>: the booking payload spread into the object, then the fields
  the handlers add. \<^verbatim>\<open>completeRide\<close> overwrites \<^verbatim>\<open>distance\<close> with a number.
\<close>

record working_ride =
  w_data :: book_request
  w_rideId :: string
  w_status :: string
  w_timestamp :: nat
  w_id :: string
  rejectedAt :: "nat option"
  completedAt :: "nat option"
  w_distance :: "rat option"

text \<open>
  \<^verbatim>\<open>rides\<close> is a plain object, so \<^verbatim>\<open>rides[k]\<close> also finds what the object inherits:
  the members of \<^verbatim>\<open>Object.prototype\<close>, all of them truthy. A handler that assigns to
  \<^verbatim>\<open>rides[k].status\<close> for such a name writes on that member, not in the working set.
  These are the fields the handlers write there.
\<close>

record inherited_marks =
  im_status :: "string option"
  im_rejectedAt :: "nat option"
  im_completedAt :: "nat option"
  im_distance :: "rat option"

text \<open>A connected socket: what the handlers store on it and the rooms it joined.\<close>

record socket =
  sock_id :: nat
  sock_driverId :: "string option"
  sock_driverName :: "string option"
  sock_rooms :: "string list"

record driver_snapshot =
  snap_driverId :: string
  snap_name :: "string option"
  snap_coordinates :: "rat option \<times> rat option"
  snap_vehicleType :: string
  snap_status :: string
  snap_lastUpdate :: nat

text \<open>\<^verbatim>\<open>driverData\<close>, the payload \<^verbatim>\<open>acceptRide\<close> builds for the rider.\<close>

record driver_data =
  dd_rideId :: string
  dd_driverId :: "string option"
  dd_driverName :: "string option"
  dd_driverMobile :: "string option"
  dd_driverLat :: rat
  dd_driverLng :: rat
  dd_otp :: "string option"
  dd_pickup :: stored_place
  dd_drop :: stored_place
  dd_status :: string
  dd_vehicleType :: string
  dd_timestamp :: nat

record user_data =
  ud_rideId :: string
  ud_userId :: string
  ud_customerId :: string
  ud_userName :: string
  ud_userMobile :: string
  ud_pickup :: stored_place
  ud_drop :: stored_place
  ud_otp :: "string option"
  ud_status :: string
  ud_timestamp :: nat

datatype event =
    DriverLiveLocationUpdate "string option" "rat option" "rat option" string string nat
  | DriverLocationsUpdate "driver_snapshot list"
  | DriverRegistrationConfirmed bool string
  | NewRideRequest book_request string string
  | RideAccepted driver_data
  | RideAcceptedGlobal driver_data string nat
  | UserDataForDriver user_data
  | RideAlreadyAccepted "string option" string
  | DriverStatusUpdate "string option" string
  | RideCompleted "string option" "rat option"
  | BookingFailed string                       \<comment> \<open>callback: \<^verbatim>\<open>{success: false, message}\<close>\<close>
  | BookingOk string string "string option" string
      \<comment> \<open>callback: \<^verbatim>\<open>{success: true, rideId, _id, otp, message}\<close>\<close>
  | AcceptFailed string                        \<comment> \<open>callback: \<^verbatim>\<open>{success: false, message}\<close>\<close>
  | AcceptOk driver_data                       \<comment> \<open>callback: \<^verbatim>\<open>driverData\<close>, \<^verbatim>\<open>success: true\<close>\<close>

text \<open>
  Where an event goes: \<^verbatim>\<open>io.emit\<close>, \<^verbatim>\<open>io.to(room).emit\<close>, \<^verbatim>\<open>socket.emit\<close> on a socket,
  \<^verbatim>\<open>socket.broadcast.emit\<close> (everyone but that socket), and the acknowledgement
  callback of the calling socket.
\<close>

datatype target = ToAll | ToRoom string | ToSocket nat | ToOthers nat | Callback nat

text \<open>What a \<^verbatim>\<open>setTimeout\<close> will do when it fires.\<close>

datatype task = EmitLater target event | DeleteRide "string option"

record server =
  sequence :: "nat option"            \<comment> \<open>the \<^verbatim>\<open>sequence\<close> of the \<^verbatim>\<open>RaidId\<close> document, if any\<close>
  rideDocs :: "ride_doc list"
  driverDocs :: "driver_doc list"
  locationDocs :: "location_doc list"
  rides :: "string \<rightharpoonup> working_ride"       \<comment> \<open>the own entries of \<^verbatim>\<open>rides\<close>\<close>
  prototypeMarks :: "string \<rightharpoonup> inherited_marks"
      \<comment> \<open>what was written on the inherited members, by property name\<close>
  activeDriverSockets :: "(string \<times> presence) list"
  processingRides :: "string set"
  sockets :: "socket list"
  outbox :: "(target \<times> event) list"   \<comment> \<open>every event emitted so far, oldest first\<close>
  timers :: "(nat \<times> task) list"        \<comment> \<open>pending timeouts: delay in milliseconds, task\<close>

definition emit :: "target \<Rightarrow> event \<Rightarrow> server \<Rightarrow> server" where
  "emit t ev s = s\<lparr>outbox := outbox s @ [(t, ev)]\<rparr>"

definition setTimeout :: "task \<Rightarrow> nat \<Rightarrow> server \<Rightarrow> server" where
  "setTimeout k ms s = s\<lparr>timers := timers s @ [(ms, k)]\<rparr>"

subsection \<open>The identifier generator\<close>

text \<open>
  \<^verbatim>\<open>generateSequentialRaidId\<close>: \<^verbatim>\<open>findOneAndUpdate\<close> with \<^verbatim>\<open>$inc\<close> and \<^verbatim>\<open>upsert\<close> makes the
  counter 1 when there is no document. Either database call may throw; the \<^verbatim>\<open>catch\<close>
  then builds the identifier from the clock and a random number.
\<close>

definition fallbackId :: "env \<Rightarrow> string" where
  "fallbackId e =
     (let timestamp = slice_last 6 (toString (now e));
          random = padStart 3 (CHR ''0'') (toString (nat \<lfloor>random_id e * 1000\<rfloor>))
      in ''RID'' @ timestamp @ random)"

definition generateSequentialRaidId :: "env \<Rightarrow> server \<Rightarrow> string \<times> server" where
  "generateSequentialRaidId e s =
     (case dbError e IncSequence of
        Some err \<Rightarrow> (fallbackId e, s)
      | None \<Rightarrow>
          (let sequenceNumber = (case sequence s of None \<Rightarrow> 1 | Some n \<Rightarrow> n + 1);
               s1 = s\<lparr>sequence := Some sequenceNumber\<rparr>
           in if sequenceNumber > 999999 then
                (case dbError e ResetSequence of
                   Some err \<Rightarrow> (fallbackId e, s1)
                 | None \<Rightarrow>
                     (''RID'' @ padStart 6 (CHR ''0'') (toString 100000),
                      s1\<lparr>sequence := Some 100000\<rparr>))
              else (''RID'' @ padStart 6 (CHR ''0'') (toString sequenceNumber), s1)))"

text \<open>Successive calls, one environment per call; the identifiers in call order.\<close>

fun generate_all :: "env list \<Rightarrow> server \<Rightarrow> string list \<times> server" where
  "generate_all [] s = ([], s)"
| "generate_all (e # es) s =
     (let (i, s1) = generateSequentialRaidId e s;
          (is, s2) = generate_all es s1
      in (i # is, s2))"

subsection \<open>Presence: location updates and registration\<close>

record location_update =
  lu_driverId :: "string option"
  lu_latitude :: "rat option"
  lu_longitude :: "rat option"
  lu_status :: "string option"

record registration =
  rd_driverId :: "string option"
  rd_driverName :: "string option"
  rd_latitude :: "rat option"
  rd_longitude :: "rat option"
  rd_vehicleType :: "string option"

text \<open>
  \<^verbatim>\<open>activeDriverSockets\<close> is a JavaScript \<^verbatim>\<open>Map\<close>: \<^verbatim>\<open>set\<close> on a known key replaces the
  value where it stands, on a new key it appends. No entry has the key \<^verbatim>\<open>undefined\<close>
  (registration refuses it), so looking a missing identifier up finds nothing.
\<close>

fun lookup_driver :: "string option \<Rightarrow> server \<Rightarrow> (string \<times> presence) option" where
  "lookup_driver None s = None"
| "lookup_driver (Some k) s =
     (case map_of (activeDriverSockets s) k of None \<Rightarrow> None | Some p \<Rightarrow> Some (k, p))"

definition set_driver :: "string \<Rightarrow> presence \<Rightarrow> server \<Rightarrow> server" where
  "set_driver k p s = s\<lparr>activeDriverSockets := AList.update k p (activeDriverSockets s)\<rparr>"

text \<open>
  \<^verbatim>\<open>saveDriverLocationToDB\<close> catches its own errors: a failed save leaves the
  collection as it was and the caller goes on.
\<close>

definition saveDriverLocationToDB ::
  "env \<Rightarrow> string option \<Rightarrow> string option \<Rightarrow> rat option \<Rightarrow> rat option \<Rightarrow> string \<Rightarrow> string
    \<Rightarrow> server \<Rightarrow> server" where
  "saveDriverLocationToDB e driverId driverName latitude longitude vehicle st s =
     (case dbError e SaveLocation of
        Some err \<Rightarrow> s
      | None \<Rightarrow>
          s\<lparr>locationDocs := locationDocs s @
            [\<lparr>loc_driverId = driverId, loc_driverName = driverName, loc_latitude = latitude,
              loc_longitude = longitude, loc_vehicleType = vehicle, loc_status = st,
              loc_timestamp = now e\<rparr>]\<rparr>)"

definition snapshot :: "presence \<Rightarrow> driver_snapshot" where
  "snapshot d =
     \<lparr>snap_driverId = p_driverId d, snap_name = p_driverName d,
      snap_coordinates = (p_longitude d, p_latitude d),
      snap_vehicleType = p_vehicleType d, snap_status = p_status d,
      snap_lastUpdate = lastUpdate d\<rparr>"

definition broadcastDriverLocationsToAllUsers :: "server \<Rightarrow> server" where
  "broadcastDriverLocationsToAllUsers s =
     emit ToAll
       (DriverLocationsUpdate (map snapshot (filter isOnline (map snd (activeDriverSockets s))))) s"

text \<open>
  \<^verbatim>\<open>logDriverStatus\<close> only prints, but it calls \<^verbatim>\<open>toFixed\<close> on every entry's latitude
  and longitude: it throws when one of them is not a number.
\<close>

definition logDriverStatus_throws :: "server \<Rightarrow> bool" where
  "logDriverStatus_throws s =
     list_ex (\<lambda>d. p_latitude d = None \<or> p_longitude d = None) (map snd (activeDriverSockets s))"

text \<open>The handler of \<^verbatim>\<open>driverLocationUpdate\<close>, run on the socket \<open>sid\<close>.\<close>

definition driverLocationUpdate :: "env \<Rightarrow> nat \<Rightarrow> location_update \<Rightarrow> server \<Rightarrow> server" where
  "driverLocationUpdate e sid d s =
     (let s1 = (case lookup_driver (lu_driverId d) s of
                  None \<Rightarrow> s
                | Some (k, driverData) \<Rightarrow>
                    set_driver k
                      (driverData\<lparr>p_latitude := lu_latitude d, p_longitude := lu_longitude d,
                                  lastUpdate := now e, p_status := or_str (lu_status d) ''Live'',
                                  isOnline := True\<rparr>) s);
          s2 = emit ToAll
                 (DriverLiveLocationUpdate (lu_driverId d) (lu_latitude d) (lu_longitude d)
                    (or_str (lu_status d) ''Live'') ''taxi'' (now e)) s1;
          driverName = (case lookup_driver (lu_driverId d) s2 of
                          None \<Rightarrow> ''Unknown''
                        | Some (k, driverData) \<Rightarrow> or_str (p_driverName driverData) ''Unknown'')
      in saveDriverLocationToDB e (lu_driverId d) (Some driverName) (lu_latitude d)
           (lu_longitude d) ''taxi'' (or_str (lu_status d) ''Live'') s2)"

definition update_socket :: "nat \<Rightarrow> (socket \<Rightarrow> socket) \<Rightarrow> server \<Rightarrow> server" where
  "update_socket sid f s =
     s\<lparr>sockets := map (\<lambda>k. if sock_id k = sid then f k else k) (sockets s)\<rparr>"

definition join :: "string \<Rightarrow> socket \<Rightarrow> socket" where
  "join room k = (if room \<in> set (sock_rooms k) then k else k\<lparr>sock_rooms := sock_rooms k @ [room]\<rparr>)"

text \<open>
  The handler of \<^verbatim>\<open>registerDriver\<close>. The two guards return before anything is written
  or sent. After the confirmation \<^verbatim>\<open>logDriverStatus\<close> runs inside the \<^verbatim>\<open>try\<close>, so its
  error reaches the \<^verbatim>\<open>catch\<close>, which sends a second, failed confirmation.
\<close>

definition registerDriver :: "env \<Rightarrow> nat \<Rightarrow> registration \<Rightarrow> server \<Rightarrow> server" where
  "registerDriver e sid d s =
     (case rd_driverId d of
        None \<Rightarrow> s
      | Some driverId \<Rightarrow>
          if driverId = [] then s
          else if \<not> truthy_num (rd_latitude d) \<or> \<not> truthy_num (rd_longitude d) then s
          else
            (let vehicle = (case rd_vehicleType d of None \<Rightarrow> ''taxi'' | Some v \<Rightarrow> v);
                 s1 = update_socket sid
                        (\<lambda>k. k\<lparr>sock_driverId := Some driverId,
                                sock_driverName := rd_driverName d\<rparr>) s;
                 s2 = set_driver driverId
                        \<lparr>socketId = sid, p_driverId = driverId, p_driverName = rd_driverName d,
                         p_latitude = rd_latitude d, p_longitude = rd_longitude d,
                         p_vehicleType = vehicle, lastUpdate = now e, p_status = ''Live'',
                         isOnline = True\<rparr> s1;
                 s3 = update_socket sid (join (''driver_'' @ driverId) \<circ> join ''allDrivers'') s2;
                 s4 = saveDriverLocationToDB e (Some driverId) (rd_driverName d) (rd_latitude d)
                        (rd_longitude d) vehicle ''Live'' s3;
                 s5 = broadcastDriverLocationsToAllUsers s4;
                 s6 = emit (ToSocket sid)
                        (DriverRegistrationConfirmed True ''Driver registered successfully'') s5
             in if logDriverStatus_throws s6
                then emit (ToSocket sid)
                       (DriverRegistrationConfirmed False (''Registration failed: '' @ typeError e)) s6
                else s6))"

subsection \<open>Rejecting and completing a ride\<close>

record ride_ref =
  rr_rideId :: "string option"
  rr_driverId :: "string option"
  rr_distance :: "rat option"

text \<open>
  \<^verbatim>\<open>rides[rideId]\<close>: an own entry of the working set, or a member inherited from
  \<^verbatim>\<open>Object.prototype\<close>, or nothing. Ride identifiers start with \<^verbatim>\<open>RID\<close>, so no own
  entry has the name \<^verbatim>\<open>undefined\<close>, and a missing identifier finds nothing.
\<close>

definition inherited_names :: "string list" where
  "inherited_names =
     [''constructor'', ''__defineGetter__'', ''__defineSetter__'', ''hasOwnProperty'',
      ''__lookupGetter__'', ''__lookupSetter__'', ''isPrototypeOf'', ''propertyIsEnumerable'',
      ''toString'', ''valueOf'', ''__proto__'', ''toLocaleString'']"

datatype ride_slot = NoRide | OwnRide string working_ride | InheritedRide string

fun lookup_ride :: "string option \<Rightarrow> server \<Rightarrow> ride_slot" where
  "lookup_ride None s = NoRide"
| "lookup_ride (Some k) s =
     (case rides s k of
        Some r \<Rightarrow> OwnRide k r
      | None \<Rightarrow> if k \<in> set inherited_names then InheritedRide k else NoRide)"

definition no_marks :: inherited_marks where
  "no_marks = \<lparr>im_status = None, im_rejectedAt = None, im_completedAt = None, im_distance = None\<rparr>"

definition mark :: "string \<Rightarrow> (inherited_marks \<Rightarrow> inherited_marks) \<Rightarrow> server \<Rightarrow> server" where
  "mark k f s =
     s\<lparr>prototypeMarks :=
         (prototypeMarks s)(k \<mapsto> f (case prototypeMarks s k of None \<Rightarrow> no_marks | Some m \<Rightarrow> m))\<rparr>"

text \<open>
  The block both handlers share: the driver goes back to \<^verbatim>\<open>Live\<close> and the calling socket
  is told so, when the driver is in \<^verbatim>\<open>activeDriverSockets\<close>.
\<close>

definition back_to_live :: "nat \<Rightarrow> string option \<Rightarrow> server \<Rightarrow> server" where
  "back_to_live sid driverId s =
     (case lookup_driver driverId s of
        None \<Rightarrow> s
      | Some (k, driverData) \<Rightarrow>
          emit (ToSocket sid) (DriverStatusUpdate driverId ''Live'')
            (set_driver k (driverData\<lparr>p_status := ''Live'', isOnline := True\<rparr>) s))"

definition rejectRide :: "env \<Rightarrow> nat \<Rightarrow> ride_ref \<Rightarrow> server \<Rightarrow> server" where
  "rejectRide e sid d s =
     (case lookup_ride (rr_rideId d) s of
        NoRide \<Rightarrow> s
      | OwnRide k r \<Rightarrow>
          back_to_live sid (rr_driverId d)
            (s\<lparr>rides := (rides s)(k \<mapsto> r\<lparr>w_status := ''rejected'', rejectedAt := Some (now e)\<rparr>)\<rparr>)
      | InheritedRide k \<Rightarrow>
          back_to_live sid (rr_driverId d)
            (mark k (\<lambda>m. m\<lparr>im_status := Some ''rejected'', im_rejectedAt := Some (now e)\<rparr>) s))"

text \<open>
  \<^verbatim>\<open>completeRide\<close> prints \<^verbatim>\<open>distance.toFixed(2)\<close> before it looks the ride up: without a
  numeric distance the handler throws there and its \<^verbatim>\<open>catch\<close> only logs. The rider is
  reached through the room named by the \<^verbatim>\<open>userId\<close> of the booking; a room \<^verbatim>\<open>undefined\<close>
  has no member, and an inherited member has no \<^verbatim>\<open>userId\<close>. The \<^verbatim>\<open>delete\<close> of the timeout
  removes an own entry only.
\<close>

definition completeRide :: "env \<Rightarrow> nat \<Rightarrow> ride_ref \<Rightarrow> server \<Rightarrow> server" where
  "completeRide e sid d s =
     (case rr_distance d of
        None \<Rightarrow> s
      | Some km \<Rightarrow>
          (case lookup_ride (rr_rideId d) s of
             NoRide \<Rightarrow> s
           | InheritedRide k \<Rightarrow>
               (let s1 = mark k (\<lambda>m. m\<lparr>im_status := Some ''completed'',
                                          im_completedAt := Some (now e),
                                          im_distance := Some km\<rparr>) s;
                    s3 = back_to_live sid (rr_driverId d) s1
                in setTimeout (DeleteRide (rr_rideId d)) 5000 s3)
           | OwnRide k r \<Rightarrow>
               (let s1 = s\<lparr>rides := (rides s)(k \<mapsto> r\<lparr>w_status := ''completed'',
                                                        completedAt := Some (now e),
                                                        w_distance := Some km\<rparr>)\<rparr>;
                    s2 = (case userId (w_data r) of
                            None \<Rightarrow> s1
                          | Some u \<Rightarrow> emit (ToRoom u) (RideCompleted (rr_rideId d) (Some km)) s1);
                    s3 = back_to_live sid (rr_driverId d) s2
                in setTimeout (DeleteRide (rr_rideId d)) 5000 s3)))"

text \<open>A timeout that fires: its task runs and it leaves the pending list.\<close>

fun run_task :: "task \<Rightarrow> server \<Rightarrow> server" where
  "run_task (EmitLater t ev) s = emit t ev s"
| "run_task (DeleteRide None) s = s"
| "run_task (DeleteRide (Some k)) s = s\<lparr>rides := (rides s)(k := None)\<rparr>"

definition fire :: "nat \<Rightarrow> server \<Rightarrow> server" where
  "fire i s =
     (if i < length (timers s)
      then run_task (snd (timers s ! i)) (s\<lparr>timers := take i (timers s) @ drop (Suc i) (timers s)\<rparr>)
      else s)"

subsection \<open>Booking a ride\<close>

text \<open>
  The acknowledgement callback is optional: \<open>cb\<close> says whether the client sent one.
\<close>

definition respond :: "bool \<Rightarrow> nat \<Rightarrow> event \<Rightarrow> server \<Rightarrow> server" where
  "respond cb sid ev s = (if cb then emit (Callback sid) ev s else s)"

definition release :: "string \<Rightarrow> server \<Rightarrow> server" where
  "release rideId s = s\<lparr>processingRides := processingRides s - {rideId}\<rparr>"

definition findRide :: "string \<Rightarrow> server \<Rightarrow> ride_doc option" where
  "findRide rideId s = find (\<lambda>r. RAID_ID r = rideId) (rideDocs s)"

definition randomOtp :: "env \<Rightarrow> string" where
  "randomOtp e = toString (nat \<lfloor>1000 + random_otp e * 9000\<rfloor>)"

definition makeOtp :: "env \<Rightarrow> book_request \<Rightarrow> string" where
  "makeOtp e d =
     (case customerId d of
        None \<Rightarrow> randomOtp e
      | Some c \<Rightarrow> if c \<noteq> [] \<and> length c \<ge> 4 then slice_last 4 c else randomOtp e)"

definition missing_required :: "book_request \<Rightarrow> bool" where
  "missing_required d =
     (\<not> truthy_str (userId d) \<or> \<not> truthy_str (customerId d) \<or> \<not> truthy_str (userName d)
      \<or> \<not> truthy_obj (pickup d) \<or> \<not> truthy_obj (drop_place d))"

text \<open>The value of a field that the validation has found present.\<close>

fun str_val :: "string option \<Rightarrow> string" where
  "str_val None = []"
| "str_val (Some v) = v"

fun store_place :: "place option \<Rightarrow> stored_place" where
  "store_place None = \<lparr>addr = ''Selected Location'', plat = None, plng = None\<rparr>"
| "store_place (Some p) =
     \<lparr>addr = or_str (address p) ''Selected Location'', plat = lat p, plng = lng p\<rparr>"

text \<open>
  \<^verbatim>\<open>rideData\<close>. The coordinate pairs and \<^verbatim>\<open>price\<close> repeat \<^verbatim>\<open>pickup\<close>, \<^verbatim>\<open>drop\<close> and \<^verbatim>\<open>fare\<close>
  and are not kept twice.
\<close>

definition rideData :: "env \<Rightarrow> book_request \<Rightarrow> string \<Rightarrow> string \<Rightarrow> ride_doc" where
  "rideData e d rideId code =
     \<lparr>doc_id = newId e, RAID_ID = rideId, user = str_val (userId d),
      ride_customerId = str_val (customerId d), name = str_val (userName d),
      pickupLocation = addr (store_place (pickup d)),
      dropoffLocation = addr (store_place (drop_place d)),
      fare = or_num (estimatedPrice d) 0, rideType = vehicleType d, otp = Some code,
      ride_distance = or_str (distance d) ''0 km'',
      ride_travelTime = or_str (travelTime d) ''0 mins'',
      isReturnTrip = (case wantReturn d of None \<Rightarrow> False | Some b \<Rightarrow> b),
      status = ''pending'', Raid_date = now e,
      ride_pickup = store_place (pickup d), ride_drop = store_place (drop_place d),
      ride_driverId = None, ride_driverName = None, driverMobile = None,
      ride_userMobile = None\<rparr>"

text \<open>
  The handler awaits the database several times. It is cut once, where \<^verbatim>\<open>newRide.save()\<close>
  is awaited: \<open>bookRide_prepare\<close> is the code up to there, \<open>bookRide_save\<close> the rest.
  Every way out passes the \<^verbatim>\<open>finally\<close> block, which releases the identifier (also on
  the path that found it held by another run).
\<close>

datatype book_pc = BookDone | AwaitSaveRide string string

definition bookRide_prepare ::
  "env \<Rightarrow> nat \<Rightarrow> book_request \<Rightarrow> bool \<Rightarrow> server \<Rightarrow> book_pc \<times> server" where
  "bookRide_prepare e sid d cb s =
     (let (rideId, s0) = generateSequentialRaidId e s;
          code = makeOtp e d
      in if rideId \<in> processingRides s0 then
           (BookDone,
            release rideId (respond cb sid (BookingFailed ''Ride is already being processed'') s0))
         else
           (let s1 = s0\<lparr>processingRides := insert rideId (processingRides s0)\<rparr>
            in if missing_required d then
                 (BookDone,
                  release rideId
                    (respond cb sid (BookingFailed ''Missing required fields'') (release rideId s1)))
               else
                 (case dbError e FindRide of
                    Some err \<Rightarrow>
                      (BookDone,
                       release rideId
                         (respond cb sid (BookingFailed ''Failed to process ride booking'') s1))
                  | None \<Rightarrow>
                      (case findRide rideId s1 of
                         Some existingRide \<Rightarrow>
                           (BookDone,
                            release rideId
                              (respond cb sid
                                 (BookingOk rideId (doc_id existingRide) (otp existingRide)
                                    ''Ride already exists'')
                                 (release rideId s1)))
                       | None \<Rightarrow>
                           (case dbError e ValidateRide of
                              Some errors \<Rightarrow>
                                (BookDone,
                                 release rideId
                                   (respond cb sid
                                      (BookingFailed (''Validation failed: '' @ errors)) s1))
                            | None \<Rightarrow> (AwaitSaveRide rideId code, s1))))))"

text \<open>
  Modelled from the spec: the \<^verbatim>\<open>Ride\<close> schema (\<^verbatim>\<open>models/ride\<close>) is not among the sources.
  The spec's RideRecord has a unique \<^verbatim>\<open>rideId\<close> and its store reports \<^verbatim>\<open>DuplicateKey\<close>; the
  handler's own branch for error code 11000 on \<^verbatim>\<open>RAID_ID\<close> expects the same. So a save
  of a document whose \<^verbatim>\<open>RAID_ID\<close> is already stored fails with that error.
\<close>

definition duplicate_key :: "string \<Rightarrow> server \<Rightarrow> bool" where
  "duplicate_key rideId s = list_ex (\<lambda>r. RAID_ID r = rideId) (rideDocs s)"

definition bookRide_save ::
  "env \<Rightarrow> nat \<Rightarrow> book_request \<Rightarrow> bool \<Rightarrow> string \<Rightarrow> string \<Rightarrow> server \<Rightarrow> server" where
  "bookRide_save e sid d cb rideId code s =
     (case dbError e SaveRide of
        Some err \<Rightarrow>
          release rideId (respond cb sid (BookingFailed ''Failed to process ride booking'') s)
      | None \<Rightarrow>
          if duplicate_key rideId s then
            (case dbError e FindRideAgain of
               Some err \<Rightarrow>
                 release rideId
                   (respond cb sid
                      (BookingFailed ''Failed to process ride booking (duplicate error)'') s)
             | None \<Rightarrow>
                 (case findRide rideId s of
                    None \<Rightarrow> release rideId s
                  | Some existingRide \<Rightarrow>
                      release rideId
                        (respond cb sid
                           (BookingOk rideId (doc_id existingRide) (otp existingRide)
                              ''Ride already exists (duplicate handled)'') s)))
          else
            (let savedRide = rideData e d rideId code;
                 s1 = s\<lparr>rideDocs := rideDocs s @ [savedRide]\<rparr>;
                 s2 = s1\<lparr>rides := (rides s1)(rideId \<mapsto>
                         \<lparr>w_data = d, w_rideId = rideId, w_status = ''pending'',
                          w_timestamp = now e, w_id = doc_id savedRide, rejectedAt = None,
                          completedAt = None, w_distance = None\<rparr>)\<rparr>;
                 s3 = emit ToAll (NewRideRequest d rideId (doc_id savedRide)) s2;
                 s4 = respond cb sid
                        (BookingOk rideId (doc_id savedRide) (Some code)
                           ''Ride booked successfully!'') s3
             in release rideId s4))"

definition bookRide :: "env \<Rightarrow> nat \<Rightarrow> book_request \<Rightarrow> bool \<Rightarrow> server \<Rightarrow> server" where
  "bookRide e sid d cb s =
     (case bookRide_prepare e sid d cb s of
        (BookDone, s1) \<Rightarrow> s1
      | (AwaitSaveRide rideId code, s1) \<Rightarrow> bookRide_save e sid d cb rideId code s1)"

subsection \<open>Accepting a ride\<close>

record accept_request =
  ar_rideId :: "string option"
  ar_driverId :: "string option"
  ar_driverName :: "string option"

text \<open>
  \<^verbatim>\<open>acceptRide\<close> is an \<^verbatim>\<open>async\<close> function with four awaits: \<^verbatim>\<open>Ride.findOne\<close>,
  \<^verbatim>\<open>Driver.findOne\<close>, \<^verbatim>\<open>ride.save()\<close> and \<^verbatim>\<open>fetchSockets()\<close>. Node runs the code between
  two awaits without interruption and may run other handlers while one waits. A run of
  the handler is therefore a sequence of four steps; the value of \<open>accept_pc\<close> is where
  a run waits, with the local variables it holds there: the document as this run read
  and changed it, the driver it found, whether it generated an OTP, the payload it built.
  Each step takes the database call it waited for and the code up to the next await.
\<close>

datatype accept_pc =
    AwaitRide
  | AwaitDriver ride_doc
  | AwaitSave ride_doc "driver_doc option" bool
  | AwaitSockets ride_doc driver_data
  | AcceptDone

fun findRideOpt :: "string option \<Rightarrow> server \<Rightarrow> ride_doc option" where
  "findRideOpt None s = None"
| "findRideOpt (Some k) s = findRide k s"

definition findDriver :: "string option \<Rightarrow> server \<Rightarrow> driver_doc option" where
  "findDriver driverId s =
     (case driverId of
        None \<Rightarrow> None
      | Some k \<Rightarrow> find (\<lambda>r. driver_driverId r = k) (driverDocs s))"

definition already_accepted :: string where
  "already_accepted = ''This ride has already been accepted by another driver.''"

text \<open>
  \<^verbatim>\<open>ride.save()\<close> writes the fields this run assigned to the stored document with the
  same \<^verbatim>\<open>_id\<close>; it does not look at the status stored by then.
\<close>

definition saveAccepted :: "ride_doc \<Rightarrow> bool \<Rightarrow> server \<Rightarrow> server" where
  "saveAccepted ride otpSet s =
     s\<lparr>rideDocs :=
         map (\<lambda>r. if doc_id r = doc_id ride
                   then r\<lparr>status := status ride, ride_driverId := ride_driverId ride,
                          ride_driverName := ride_driverName ride,
                          driverMobile := driverMobile ride,
                          otp := (if otpSet then otp ride else otp r)\<rparr>
                   else r)
           (rideDocs s)\<rparr>"

definition driverData :: "env \<Rightarrow> accept_request \<Rightarrow> ride_doc \<Rightarrow> driver_doc option \<Rightarrow> driver_data" where
  "driverData e a ride driver =
     \<lparr>dd_rideId = RAID_ID ride, dd_driverId = ar_driverId a, dd_driverName = ar_driverName a,
      dd_driverMobile = driverMobile ride,
      dd_driverLat = (case driver of None \<Rightarrow> 0
                      | Some dr \<Rightarrow> (case coordinates dr of None \<Rightarrow> 0 | Some (lo, la) \<Rightarrow> la)),
      dd_driverLng = (case driver of None \<Rightarrow> 0
                      | Some dr \<Rightarrow> (case coordinates dr of None \<Rightarrow> 0 | Some (lo, la) \<Rightarrow> lo)),
      dd_otp = otp ride, dd_pickup = ride_pickup ride, dd_drop = ride_drop ride,
      dd_status = status ride,
      dd_vehicleType = (case driver of None \<Rightarrow> ''taxi''
                        | Some dr \<Rightarrow> or_str (driver_vehicleType dr) ''taxi''),
      dd_timestamp = now e\<rparr>"

definition userDataForDriver :: "env \<Rightarrow> ride_doc \<Rightarrow> user_data" where
  "userDataForDriver e ride =
     \<lparr>ud_rideId = RAID_ID ride, ud_userId = user ride, ud_customerId = ride_customerId ride,
      ud_userName = name ride, ud_userMobile = or_str (ride_userMobile ride) ''N/A'',
      ud_pickup = ride_pickup ride, ud_drop = ride_drop ride, ud_otp = otp ride,
      ud_status = status ride, ud_timestamp = now e\<rparr>"

definition emit_each :: "nat list \<Rightarrow> event \<Rightarrow> server \<Rightarrow> server" where
  "emit_each ids ev s = s\<lparr>outbox := outbox s @ map (\<lambda>i. (ToSocket i, ev)) ids\<rparr>"

definition acceptRide_step ::
  "env \<Rightarrow> nat \<Rightarrow> accept_request \<Rightarrow> bool \<Rightarrow> accept_pc \<Rightarrow> server \<Rightarrow> accept_pc \<times> server" where
  "acceptRide_step e sid a cb pc s =
     (case pc of
        AwaitRide \<Rightarrow>
          (case dbError e FindRide of
             Some err \<Rightarrow> (AcceptDone, respond cb sid (AcceptFailed (''Server error: '' @ err)) s)
           | None \<Rightarrow>
               (case findRideOpt (ar_rideId a) s of
                  None \<Rightarrow> (AcceptDone, respond cb sid (AcceptFailed ''Ride not found'') s)
                | Some ride \<Rightarrow>
                    if status ride = ''accepted'' then
                      (AcceptDone,
                       respond cb sid (AcceptFailed already_accepted)
                         (emit (ToOthers sid) (RideAlreadyAccepted (ar_rideId a) already_accepted) s))
                    else
                      (AwaitDriver
                         (ride\<lparr>status := ''accepted'', ride_driverId := ar_driverId a,
                               ride_driverName := ar_driverName a\<rparr>), s)))
      | AwaitDriver ride \<Rightarrow>
          (case dbError e FindDriver of
             Some err \<Rightarrow> (AcceptDone, respond cb sid (AcceptFailed (''Server error: '' @ err)) s)
           | None \<Rightarrow>
               (let driver = findDriver (ar_driverId a) s;
                    ride1 = ride\<lparr>driverMobile :=
                              (case driver of None \<Rightarrow> Some ''N/A'' | Some dr \<Rightarrow> phone dr)\<rparr>;
                    otpSet = (\<not> truthy_str (otp ride1));
                    ride2 = (if otpSet then ride1\<lparr>otp := Some (randomOtp e)\<rparr> else ride1)
                in (AwaitSave ride2 driver otpSet, s)))
      | AwaitSave ride driver otpSet \<Rightarrow>
          (case dbError e SaveAccepted of
             Some err \<Rightarrow> (AcceptDone, respond cb sid (AcceptFailed (''Server error: '' @ err)) s)
           | None \<Rightarrow>
               (let s1 = saveAccepted ride otpSet s;
                    payload = driverData e a ride driver;
                    s2 = respond cb sid (AcceptOk payload) s1;
                    s3 = emit (ToRoom (user ride)) (RideAccepted payload) s2
                in (AwaitSockets ride payload, s3)))
      | AwaitSockets ride payload \<Rightarrow>
          (let userRoom = user ride;
               userSockets = filter (\<lambda>k. userRoom \<in> set (sock_rooms k)) (sockets s);
               s1 = emit_each (map sock_id userSockets) (RideAccepted payload) s;
               s2 = emit ToAll (RideAcceptedGlobal payload userRoom (now e)) s1;
               s3 = setTimeout (EmitLater (ToRoom userRoom) (RideAccepted payload)) 1000 s2;
               s4 = (case find (\<lambda>k. sock_driverId k = ar_driverId a) (sockets s3) of
                       Some driverSocket \<Rightarrow>
                         emit (ToSocket (sock_id driverSocket))
                           (UserDataForDriver (userDataForDriver e ride)) s3
                     | None \<Rightarrow>
                         emit (ToRoom (''driver_'' @ (case ar_driverId a of
                                                       None \<Rightarrow> ''undefined'' | Some k \<Rightarrow> k)))
                           (UserDataForDriver (userDataForDriver e ride)) s3);
               s5 = emit (ToOthers sid) (RideAlreadyAccepted (ar_rideId a) already_accepted) s4;
               s6 = (case lookup_driver (ar_driverId a) s5 of
                       None \<Rightarrow> s5
                     | Some (k, driverInfo) \<Rightarrow>
                         set_driver k (driverInfo\<lparr>p_status := ''onRide'', isOnline := True\<rparr>) s5)
           in (AcceptDone, s6))
      | AcceptDone \<Rightarrow> (AcceptDone, s))"

text \<open>One run from the first await to the end, with no other handler in between.\<close>

definition acceptRide :: "env \<Rightarrow> nat \<Rightarrow> accept_request \<Rightarrow> bool \<Rightarrow> server \<Rightarrow> server" where
  "acceptRide e sid a cb s =
     (let (pc1, s1) = acceptRide_step e sid a cb AwaitRide s;
          (pc2, s2) = acceptRide_step e sid a cb pc1 s1;
          (pc3, s3) = acceptRide_step e sid a cb pc2 s2;
          (pc4, s4) = acceptRide_step e sid a cb pc3 s3
      in s4)"

text \<open>
  Several runs in flight: each has its environment, socket, payload and the place where
  it waits. A schedule names, step by step, the run that goes on next.
\<close>

record accept_run =
  run_env :: env
  run_socket :: nat
  run_request :: accept_request
  run_callback :: bool
  run_pc :: accept_pc

fun interleave :: "nat list \<Rightarrow> accept_run list \<Rightarrow> server \<Rightarrow> accept_run list \<times> server" where
  "interleave [] rs s = (rs, s)"
| "interleave (i # sched) rs s =
     (if i < length rs
      then (let r = rs ! i;
                (pc, s1) = acceptRide_step (run_env r) (run_socket r) (run_request r)
                             (run_callback r) (run_pc r) s
            in interleave sched (rs[i := r\<lparr>run_pc := pc\<rparr>]) s1)
      else interleave sched rs s)"

text \<open>What the acknowledgement callback of a socket received, oldest first.\<close>

definition callbacks :: "nat \<Rightarrow> server \<Rightarrow> event list" where
  "callbacks sid s = map snd (filter (\<lambda>m. fst m = Callback sid) (outbox s))"

subsection \<open>Notions the statements use\<close>

text \<open>An identifier is \<^verbatim>\<open>RID\<close> followed by exactly \<open>k\<close> decimal digits.\<close>

definition rid_format :: "nat \<Rightarrow> string \<Rightarrow> bool" where
  "rid_format k i = (take 3 i = ''RID'' \<and> length i = 3 + k \<and> list_all is_digit (drop 3 i))"

definition formatted :: "nat \<Rightarrow> string" where
  "formatted n = ''RID'' @ padStart 6 (CHR ''0'') (toString n)"

text \<open>
  A call of the generator ends in its \<^verbatim>\<open>catch\<close> when the increment throws, or when
  the incremented counter is past 999999 and the reset throws.
\<close>

definition falls_back :: "env \<Rightarrow> server \<Rightarrow> bool" where
  "falls_back e s =
     (case dbError e IncSequence of
        Some err \<Rightarrow> True
      | None \<Rightarrow>
          (case sequence s of
             None \<Rightarrow> False
           | Some n \<Rightarrow> n + 1 > 999999 \<and> dbError e ResetSequence \<noteq> None))"

definition no_errors :: "env \<Rightarrow> bool" where
  "no_errors e = (dbError e IncSequence = None \<and> dbError e ResetSequence = None)"

text \<open>The counter value the next call hands out when the database answers.\<close>

definition first_value :: "server \<Rightarrow> nat" where
  "first_value s =
     (case sequence s of None \<Rightarrow> 1 | Some n \<Rightarrow> if n + 1 > 999999 then 100000 else n + 1)"

text \<open>Reading a digit string back, to tell formatted identifiers apart.\<close>

definition digit_val :: "char \<Rightarrow> nat" where
  "digit_val c = length (takeWhile (\<lambda>d. d \<noteq> c) ''0123456789'')"

definition fromDigits :: "string \<Rightarrow> nat" where
  "fromDigits cs = foldl (\<lambda>a c. 10 * a + digit_val c) 0 cs"

text \<open>\<open>contains w s\<close>: the word \<open>w\<close> occurs in \<open>s\<close>.\<close>

fun contains :: "string \<Rightarrow> string \<Rightarrow> bool" where
  "contains w [] = (w = [])"
| "contains w (c # cs) = (take (length w) (c # cs) = w \<or> contains w cs)"

text \<open>
  The document as a run of \<^verbatim>\<open>acceptRide\<close> holds it when it saves, for the stored document
  \<open>ride\<close> it read, and the payload it builds from it.
\<close>

definition accepted_doc :: "env \<Rightarrow> accept_request \<Rightarrow> ride_doc \<Rightarrow> server \<Rightarrow> ride_doc" where
  "accepted_doc e a ride s =
     (let ride1 = ride\<lparr>status := ''accepted'', ride_driverId := ar_driverId a,
                       ride_driverName := ar_driverName a,
                       driverMobile := (case findDriver (ar_driverId a) s of
                                          None \<Rightarrow> Some ''N/A'' | Some dr \<Rightarrow> phone dr)\<rparr>
      in if truthy_str (otp ride1) then ride1 else ride1\<lparr>otp := Some (randomOtp e)\<rparr>)"

definition accepted_payload :: "env \<Rightarrow> accept_request \<Rightarrow> ride_doc \<Rightarrow> server \<Rightarrow> driver_data" where
  "accepted_payload e a ride s =
     driverData e a (accepted_doc e a ride s) (findDriver (ar_driverId a) s)"

subsection \<open>A small scenario\<close>

text \<open>
  Two drivers \<^verbatim>\<open>D1\<close> and \<^verbatim>\<open>D2\<close> on the sockets 1 and 2, a rider \<^verbatim>\<open>u1\<close> on socket 3, and
  the ride \<^verbatim>\<open>RID100001\<close> the rider booked, still pending.
\<close>

definition env0 :: env where
  "env0 = \<lparr>now = 1730000000000, random_id = 7 / 1000, random_otp = 1 / 2,
            dbError = (\<lambda>op. None), newId = ''65f0a1c2'', typeError = ''TypeError''\<rparr>"

definition env_down :: env where
  "env_down = env0\<lparr>dbError := (\<lambda>op. if op = IncSequence then Some ''timeout'' else None)\<rparr>"

definition server0 :: server where
  "server0 =
     \<lparr>sequence = None, rideDocs = [], driverDocs = [], locationDocs = [], rides = Map.empty,
      prototypeMarks = Map.empty, activeDriverSockets = [], processingRides = {},
      sockets = [\<lparr>sock_id = 1, sock_driverId = None, sock_driverName = None, sock_rooms = []\<rparr>,
                 \<lparr>sock_id = 2, sock_driverId = None, sock_driverName = None, sock_rooms = []\<rparr>,
                 \<lparr>sock_id = 3, sock_driverId = None, sock_driverName = None,
                  sock_rooms = [''u1'']\<rparr>],
      outbox = [], timers = []\<rparr>"

definition request0 :: book_request where
  "request0 =
     \<lparr>userId = Some ''u1'', customerId = Some ''CUST4821'', userName = Some ''Ravi'',
      userMobile = None,
      pickup = Some \<lparr>address = Some ''MG Road'', lat = Some (129 / 10), lng = Some (776 / 10)\<rparr>,
      drop_place = Some \<lparr>address = None, lat = Some 13, lng = Some (777 / 10)\<rparr>,
      vehicleType = Some ''taxi'', estimatedPrice = Some 120, distance = Some ''3.2 km'',
      travelTime = None, wantReturn = None\<rparr>"

definition ride0 :: ride_doc where
  "ride0 = rideData env0 request0 ''RID100001'' ''4821''"

definition working0 :: working_ride where
  "working0 =
     \<lparr>w_data = request0, w_rideId = ''RID100001'', w_status = ''pending'',
      w_timestamp = 1730000000000, w_id = ''65f0a1c2'', rejectedAt = None, completedAt = None,
      w_distance = None\<rparr>"

definition presence1 :: presence where
  "presence1 =
     \<lparr>socketId = 1, p_driverId = ''D1'', p_driverName = Some ''Asha'',
      p_latitude = Some (129 / 10), p_longitude = Some (776 / 10), p_vehicleType = ''taxi'',
      lastUpdate = 1729999990000, p_status = ''onRide'', isOnline = True\<rparr>"

definition presence2 :: presence where
  "presence2 =
     \<lparr>socketId = 2, p_driverId = ''D2'', p_driverName = Some ''Bala'',
      p_latitude = Some 13, p_longitude = Some (775 / 10), p_vehicleType = ''taxi'',
      lastUpdate = 1729999995000, p_status = ''Live'', isOnline = True\<rparr>"

definition dispatch0 :: server where
  "dispatch0 =
     \<lparr>sequence = Some 100001, rideDocs = [ride0],
      driverDocs =
        [\<lparr>driver_driverId = ''D1'', phone = Some ''9000000001'',
          coordinates = Some (776 / 10, 129 / 10), driver_vehicleType = Some ''taxi''\<rparr>,
         \<lparr>driver_driverId = ''D2'', phone = Some ''9000000002'',
          coordinates = Some (775 / 10, 13), driver_vehicleType = None\<rparr>],
      locationDocs = [], rides = [''RID100001'' \<mapsto> working0], prototypeMarks = Map.empty,
      activeDriverSockets = [(''D1'', presence1), (''D2'', presence2)], processingRides = {},
      sockets =
        [\<lparr>sock_id = 1, sock_driverId = Some ''D1'', sock_driverName = Some ''Asha'',
          sock_rooms = [''allDrivers'', ''driver_D1'']\<rparr>,
         \<lparr>sock_id = 2, sock_driverId = Some ''D2'', sock_driverName = Some ''Bala'',
          sock_rooms = [''allDrivers'', ''driver_D2'']\<rparr>,
         \<lparr>sock_id = 3, sock_driverId = None, sock_driverName = None, sock_rooms = [''u1'']\<rparr>],
      outbox = [], timers = []\<rparr>"

definition reject0 :: ride_ref where
  "reject0 = \<lparr>rr_rideId = Some ''RID100001'', rr_driverId = Some ''D1'', rr_distance = None\<rparr>"

definition reject9 :: ride_ref where
  "reject9 = \<lparr>rr_rideId = Some ''RID100001'', rr_driverId = Some ''D9'', rr_distance = None\<rparr>"

definition complete9 :: ride_ref where
  "complete9 =
     \<lparr>rr_rideId = Some ''RID100001'', rr_driverId = Some ''D9'', rr_distance = Some (32 / 10)\<rparr>"

definition complete0 :: ride_ref where
  "complete0 =
     \<lparr>rr_rideId = Some ''RID100001'', rr_driverId = Some ''D1'', rr_distance = Some (32 / 10)\<rparr>"

definition accept1 :: accept_request where
  "accept1 = \<lparr>ar_rideId = Some ''RID100001'', ar_driverId = Some ''D1'', ar_driverName = Some ''Asha''\<rparr>"

definition accept2 :: accept_request where
  "accept2 = \<lparr>ar_rideId = Some ''RID100001'', ar_driverId = Some ''D2'', ar_driverName = Some ''Bala''\<rparr>"

definition run1 :: accept_run where
  "run1 = \<lparr>run_env = env0, run_socket = 1, run_request = accept1, run_callback = True,
            run_pc = AwaitRide\<rparr>"

definition run2 :: accept_run where
  "run2 = \<lparr>run_env = env0, run_socket = 2, run_request = accept2, run_callback = True,
            run_pc = AwaitRide\<rparr>"

text \<open>
  Both drivers accept the ride at the same time: the two runs take their steps in turn,
  so each has read the pending ride before either has saved.
\<close>

definition race :: "accept_run list \<times> server" where
  "race = interleave [0, 1, 0, 1, 0, 1, 0, 1] [run1, run2] dispatch0"

section \<open>Properties\<close>

subsection \<open>Decimal strings\<close>

lemma digit_char_is_digit: "is_digit (digit_char d)"
  unfolding is_digit_def digit_char_def by (rule nth_mem) simp

lemma digit_val_nth: "i < 10 \<Longrightarrow> digit_val (''0123456789'' ! i) = i"
  unfolding digit_val_def by (auto simp: eval_nat_numeral less_Suc_eq)

lemma digit_val_digit_char: "digit_val (digit_char d) = d mod 10"
  unfolding digit_char_def by (rule digit_val_nth) simp

lemma toString_digits: "list_all is_digit (toString n)"
proof (induction n rule: toString.induct)
  case (1 n)
  then show ?case
    by (subst toString.simps) (simp add: digit_char_is_digit)
qed

lemma length_toString: "n < 10 ^ k \<Longrightarrow> 0 < k \<Longrightarrow> length (toString n) \<le> k"
proof (induction n arbitrary: k rule: toString.induct)
  case (1 n)
  show ?case
  proof (cases "n < 10")
    case True
    then show ?thesis using "1.prems" by (subst toString.simps) simp
  next
    case False
    obtain j where k: "k = Suc j" using "1.prems"(2) by (cases k) auto
    have "j \<noteq> 0" using False "1.prems"(1) k by (cases j) auto
    moreover have "n div 10 < 10 ^ j" using "1.prems"(1) k
      by (simp add: less_mult_imp_div_less mult.commute)
    ultimately have "length (toString (n div 10)) \<le> j"
      using "1.IH"[OF False, of j] by simp
    then show ?thesis using False k by (subst toString.simps) simp
  qed
qed

lemma length_toString_ge: "10 ^ k \<le> n \<Longrightarrow> k < length (toString n)"
proof (induction n arbitrary: k rule: toString.induct)
  case (1 n)
  show ?case
  proof (cases k)
    case 0
    then show ?thesis by (subst toString.simps) simp
  next
    case (Suc j)
    then have ge: "10 * 10 ^ j \<le> n" using "1.prems" by simp
    have "(1::nat) \<le> 10 ^ j" by simp
    then have "(10::nat) * 1 \<le> 10 * 10 ^ j" by (rule mult_le_mono2)
    then have nb: "\<not> n < 10" using ge by linarith
    have "10 ^ j \<le> n div 10" using ge by (simp add: less_eq_div_iff_mult_less_eq mult.commute)
    then have "j < length (toString (n div 10))" using "1.IH"[OF nb] by simp
    then show ?thesis using nb Suc by (subst toString.simps) simp
  qed
qed

lemma fromDigits_snoc: "fromDigits (cs @ [c]) = 10 * fromDigits cs + digit_val c"
  unfolding fromDigits_def by simp

lemma fromDigits_toString: "fromDigits (toString n) = n"
proof (induction n rule: toString.induct)
  case (1 n)
  show ?case
  proof (cases "n < 10")
    case True
    then show ?thesis
      by (subst toString.simps) (simp add: fromDigits_def digit_val_digit_char)
  next
    case False
    then show ?thesis using "1.IH"
      by (subst toString.simps) (simp add: fromDigits_snoc digit_val_digit_char)
  qed
qed

lemma digit_val_zero: "digit_val (CHR ''0'') = 0"
  by (simp add: digit_val_def)

lemma fromDigits_zeros: "fromDigits (replicate k (CHR ''0'') @ cs) = fromDigits cs"
proof -
  have "foldl (\<lambda>a c. 10 * a + digit_val c) 0 (replicate k (CHR ''0'')) = 0"
    by (induction k) (simp_all add: digit_val_zero)
  then show ?thesis unfolding fromDigits_def by simp
qed

lemma fromDigits_padStart: "fromDigits (padStart k (CHR ''0'') (toString n)) = n"
  by (simp add: padStart_def fromDigits_zeros fromDigits_toString)

lemma padStart_length: "length s \<le> k \<Longrightarrow> length (padStart k c s) = k"
  by (simp add: padStart_def)

lemma padStart_digits: "list_all is_digit s \<Longrightarrow> list_all is_digit (padStart k (CHR ''0'') s)"
proof -
  assume a: "list_all is_digit s"
  have z: "is_digit (CHR ''0'')" by (simp add: is_digit_def)
  show ?thesis using a z by (auto simp add: padStart_def list_all_iff)
qed

lemma formatted_inj: "formatted a = formatted b \<Longrightarrow> a = b"
proof -
  assume "formatted a = formatted b"
  then have "padStart 6 (CHR ''0'') (toString a) = padStart 6 (CHR ''0'') (toString b)"
    by (simp add: formatted_def)
  then have "fromDigits (padStart 6 (CHR ''0'') (toString a))
           = fromDigits (padStart 6 (CHR ''0'') (toString b))" by simp
  then show "a = b" by (simp only: fromDigits_padStart)
qed

lemma formatted_format: "n \<le> 999999 \<Longrightarrow> rid_format 6 (formatted n)"
proof -
  assume "n \<le> 999999"
  then have "n < 10 ^ 6" by simp
  then have "length (toString n) \<le> 6" by (rule length_toString) simp
  then have "length (padStart 6 (CHR ''0'') (toString n)) = 6" by (rule padStart_length)
  moreover have "list_all is_digit (padStart 6 (CHR ''0'') (toString n))"
    by (rule padStart_digits) (rule toString_digits)
  ultimately show ?thesis by (simp add: rid_format_def formatted_def)
qed

lemma toString_100000: "toString 100000 = ''100000''"
  by (simp add: toString.simps digit_char_def)

lemma formatted_100000: "formatted 100000 = ''RID100000''"
  by (simp add: formatted_def toString_100000 padStart_def)


subsection \<open>The identifier generator\<close>

lemma generate_counter_path:
  "\<not> falls_back e s \<Longrightarrow>
   generateSequentialRaidId e s = (formatted (first_value s), s\<lparr>sequence := Some (first_value s)\<rparr>)"
  by (auto simp: generateSequentialRaidId_def falls_back_def first_value_def formatted_def Let_def
      split: option.splits)

lemma generate_fallback_path:
  "falls_back e s \<Longrightarrow> fst (generateSequentialRaidId e s) = fallbackId e"
  by (auto simp: generateSequentialRaidId_def falls_back_def Let_def split: option.splits)

lemma first_value_le: "first_value s \<le> 999999"
  by (simp add: first_value_def split: option.splits)

lemma slice_last_length: "n \<le> length s \<Longrightarrow> length (slice_last n s) = n"
  by (simp add: slice_last_def)

lemma slice_last_digits: "list_all is_digit s \<Longrightarrow> list_all is_digit (slice_last n s)"
  unfolding slice_last_def list_all_iff by (auto dest: in_set_dropD)

lemma fallbackId_format:
  assumes "100000 \<le> now e" and "0 \<le> random_id e" and "random_id e < 1"
  shows "rid_format 9 (fallbackId e)"
proof -
  have "10 ^ 5 \<le> now e" using assms(1) by simp
  then have "5 < length (toString (now e))" by (rule length_toString_ge)
  then have l1: "length (slice_last 6 (toString (now e))) = 6"
    by (intro slice_last_length) simp
  have d1: "list_all is_digit (slice_last 6 (toString (now e)))"
    by (rule slice_last_digits) (rule toString_digits)
  have "random_id e * 1000 < 1000" using assms(3) by simp
  then have "\<lfloor>random_id e * 1000\<rfloor> < 1000" by (simp add: floor_less_iff)
  then have "nat \<lfloor>random_id e * 1000\<rfloor> < 1000" by linarith
  then have "nat \<lfloor>random_id e * 1000\<rfloor> < 10 ^ 3" by simp
  then have "length (toString (nat \<lfloor>random_id e * 1000\<rfloor>)) \<le> 3"
    by (rule length_toString) simp
  then have l2: "length (padStart 3 (CHR ''0'') (toString (nat \<lfloor>random_id e * 1000\<rfloor>))) = 3"
    by (rule padStart_length)
  have d2: "list_all is_digit (padStart 3 (CHR ''0'') (toString (nat \<lfloor>random_id e * 1000\<rfloor>)))"
    by (rule padStart_digits) (rule toString_digits)
  show ?thesis using l1 l2 d1 d2 by (simp add: rid_format_def fallbackId_def Let_def)
qed

lemma upt_plus_Suc: "[a ..< a + Suc n] = a # [Suc a ..< Suc a + n]"
  by (simp add: upt_conv_Cons del: upt_Suc)

lemma generate_all_epoch:
  "list_all no_errors es \<Longrightarrow> first_value s + length es \<le> 1000000 \<Longrightarrow>
   fst (generate_all es s) = map formatted [first_value s ..< first_value s + length es]"
proof (induction es arbitrary: s)
  case Nil
  then show ?case by simp
next
  case (Cons e es)
  have nf: "\<not> falls_back e s" using Cons.prems(1)
    by (auto simp: falls_back_def no_errors_def split: option.splits)
  let ?s1 = "s\<lparr>sequence := Some (first_value s)\<rparr>"
  have step: "generateSequentialRaidId e s = (formatted (first_value s), ?s1)"
    using nf by (rule generate_counter_path)
  have unfold: "fst (generate_all (e # es) s) = formatted (first_value s) # fst (generate_all es ?s1)"
    by (simp add: step split_def Let_def)
  have rest: "fst (generate_all es ?s1)
                = map formatted [Suc (first_value s) ..< Suc (first_value s) + length es]"
  proof (cases es)
    case Nil
    then show ?thesis by simp
  next
    case (Cons e' es')
    then have "first_value s + 1 \<le> 999999" using Cons.prems(2) by simp
    then have fv: "first_value ?s1 = Suc (first_value s)" by (simp add: first_value_def)
    have "fst (generate_all es ?s1) = map formatted [first_value ?s1 ..< first_value ?s1 + length es]"
      using Cons.prems fv by (intro Cons.IH) simp_all
    then show ?thesis by (simp only: fv)
  qed
  have "[first_value s ..< first_value s + length (e # es)]
          = first_value s # [Suc (first_value s) ..< Suc (first_value s) + length es]"
    by (simp add: upt_conv_Cons del: upt_Suc)
  then show ?case by (simp only: unfold rest list.map)
qed


text \<open>
  C3. When the counter, once incremented, is past 999999 and both database calls
  answer, the generator stores 100000 in the counter and returns \<^verbatim>\<open>RID100000\<close>.
\<close>

theorem generator_wraparound:
  assumes "sequence s = Some c" and "c + 1 > 999999"
    and "dbError e IncSequence = None" and "dbError e ResetSequence = None"
  shows "generateSequentialRaidId e s = (''RID100000'', s\<lparr>sequence := Some 100000\<rparr>)"
  using assms
  by (simp add: generateSequentialRaidId_def Let_def toString_100000 padStart_def)

theorem generator_wraparound_witness:
  "generateSequentialRaidId env0 (server0\<lparr>sequence := Some 999999\<rparr>)
     = (''RID100000'', server0\<lparr>sequence := Some 100000\<rparr>)"
  using generator_wraparound [of "server0\<lparr>sequence := Some 999999\<rparr>" 999999 env0]
  by (simp add: env0_def)

text \<open>
  C4, as the code has it. On the path through the counter every identifier is \<^verbatim>\<open>RID\<close>
  and exactly six digits. On the path through the \<^verbatim>\<open>catch\<close> it is \<^verbatim>\<open>RID\<close> and nine
  digits: the last six of the clock and a random number padded to three (for a clock of
  at least six digits and a \<^verbatim>\<open>Math.random()\<close> in \<open>[0, 1)\<close>). Successive calls that the
  database answers and that stay within one epoch (the first call may be the one that
  wraps, no later call passes 999999) return pairwise distinct identifiers.
\<close>

theorem generator_format_by_path:
  "(\<not> falls_back e s \<longrightarrow> rid_format 6 (fst (generateSequentialRaidId e s)))
   \<and> (falls_back e s \<and> 100000 \<le> now e \<and> 0 \<le> random_id e \<and> random_id e < 1
        \<longrightarrow> rid_format 9 (fst (generateSequentialRaidId e s)))
   \<and> (list_all no_errors es \<and> first_value s + length es \<le> 1000000
        \<longrightarrow> distinct (fst (generate_all es s)))"
proof -
  have a: "rid_format 9 (fst (generateSequentialRaidId e s))"
    if "falls_back e s" "100000 \<le> now e" "0 \<le> random_id e" "random_id e < 1"
    using that by (simp add: generate_fallback_path fallbackId_format)
  have b: "rid_format 6 (fst (generateSequentialRaidId e s))" if "\<not> falls_back e s"
    using that by (simp add: generate_counter_path formatted_format first_value_le)
  have c: "distinct (fst (generate_all es s))"
    if "list_all no_errors es" "first_value s + length es \<le> 1000000"
  proof -
    have "inj_on formatted (set [first_value s ..< first_value s + length es])"
      by (rule inj_onI) (rule formatted_inj)
    then show ?thesis using that by (simp add: generate_all_epoch distinct_map)
  qed
  show ?thesis using a b c by simp
qed

theorem generator_format_by_path_witness:
  "rid_format 6 (fst (generateSequentialRaidId env0 dispatch0))
   \<and> rid_format 9 (fst (generateSequentialRaidId env_down dispatch0))
   \<and> distinct (fst (generate_all [env0, env0, env0] dispatch0))"
  using generator_format_by_path [of env0 dispatch0 "[env0, env0, env0]"]
    generator_format_by_path [of env_down dispatch0 "[]"]
  by (simp add: falls_back_def no_errors_def first_value_def env0_def env_down_def dispatch0_def)

text \<open>
  The claim as stated fails on the \<^verbatim>\<open>catch\<close> path: with the increment failing, the
  clock at 1730000000000 and a random number of 0.007, the identifier is
  \<^verbatim>\<open>RID000000007\<close>, nine digits; and two such calls in the same millisecond with the
  same random number return the same identifier.
\<close>

lemma fallbackId_env_down: "fallbackId env_down = ''RID000000007''"
proof -
  have t: "toString 1730000000000 = ''1730000000000''"
    by (simp add: toString.simps digit_char_def)
  have r: "nat \<lfloor>(7 / 1000 :: rat) * 1000\<rfloor> = 7" by simp
  have p: "padStart 3 (CHR ''0'') (toString 7) = ''007''"
    by (simp add: toString.simps digit_char_def padStart_def numeral_2_eq_2)
  show ?thesis
    by (simp add: fallbackId_def env_down_def env0_def t r p slice_last_def)
qed

theorem generator_fallback_counterexample:
  "fst (generateSequentialRaidId env_down dispatch0) = ''RID000000007''
   \<and> \<not> rid_format 6 (fst (generateSequentialRaidId env_down dispatch0))
   \<and> \<not> distinct (fst (generate_all [env_down, env_down] dispatch0))"
proof -
  have d: "dbError env_down IncSequence = Some ''timeout''"
    by (simp add: env_down_def)
  have g: "generateSequentialRaidId env_down s = (''RID000000007'', s)" for s
    by (simp add: generateSequentialRaidId_def fallbackId_env_down d)
  show ?thesis by (simp add: g rid_format_def)
qed

subsection \<open>Presence\<close>

lemma lookup_driver_Some:
  "lookup_driver (Some k) s = Some (k', p) \<longleftrightarrow> k' = k \<and> map_of (activeDriverSockets s) k = Some p"
  by (auto split: option.splits)

text \<open>
  A registration that passes both guards stores the entry under the driver's identifier
  and confirms to the calling socket.
\<close>

lemma registerDriver_valid:
  assumes "rd_driverId d = Some k" "k \<noteq> []" "truthy_num (rd_latitude d)" "truthy_num (rd_longitude d)"
  shows "map_of (activeDriverSockets (registerDriver e sid d s)) k =
           Some \<lparr>socketId = sid, p_driverId = k, p_driverName = rd_driverName d,
                 p_latitude = rd_latitude d, p_longitude = rd_longitude d,
                 p_vehicleType = (case rd_vehicleType d of None \<Rightarrow> ''taxi'' | Some v \<Rightarrow> v),
                 lastUpdate = now e, p_status = ''Live'', isOnline = True\<rparr>"
    and "(ToSocket sid, DriverRegistrationConfirmed True ''Driver registered successfully'')
           \<in> set (outbox (registerDriver e sid d s))"
  using assms
  by (auto simp: registerDriver_def Let_def set_driver_def update_socket_def emit_def
      saveDriverLocationToDB_def broadcastDriverLocationsToAllUsers_def update_conv'
      split: option.splits)

text \<open>
  C10. A \<^verbatim>\<open>registerDriver\<close> request whose \<^verbatim>\<open>driverId\<close> is missing (or empty), or whose
  latitude or longitude is 0, leaves the whole state as it was: no entry in
  \<^verbatim>\<open>activeDriverSockets\<close>, nothing stored on the socket, no
  \<^verbatim>\<open>driverRegistrationConfirmed\<close> or any other event.
\<close>

theorem registerDriver_invalid_is_ignored:
  assumes "\<not> truthy_str (rd_driverId d) \<or> rd_latitude d = Some 0 \<or> rd_longitude d = Some 0"
  shows "registerDriver e sid d s = s"
  using assms by (cases "rd_driverId d") (auto simp: registerDriver_def)

theorem registerDriver_invalid_is_ignored_witness:
  "registerDriver env0 1
     \<lparr>rd_driverId = Some ''D1'', rd_driverName = Some ''Asha'', rd_latitude = Some 0,
      rd_longitude = Some (776 / 10), rd_vehicleType = None\<rparr> server0 = server0"
  using registerDriver_invalid_is_ignored
    [of "\<lparr>rd_driverId = Some ''D1'', rd_driverName = Some ''Asha'', rd_latitude = Some 0,
      rd_longitude = Some (776 / 10), rd_vehicleType = None\<rparr>" env0 1 server0]
  by simp

text \<open>
  C8, as the code has it. \<^verbatim>\<open>driverLocationUpdate\<close> changes \<^verbatim>\<open>activeDriverSockets\<close> only for
  a driver it knows: the entry gets the new location, the time, the status (\<^verbatim>\<open>Live\<close>
  when none is sent) and is marked online, where it stands; an unknown driver is not
  registered. Known or not, the update is broadcast to every connection, and a location
  document is saved (under the name \<^verbatim>\<open>Unknown\<close> for an unknown driver) unless the save
  throws.
\<close>

theorem driverLocationUpdate_effects:
  "(case lookup_driver (lu_driverId d) s of
      None \<Rightarrow> activeDriverSockets (driverLocationUpdate e sid d s) = activeDriverSockets s
    | Some (k, p) \<Rightarrow>
        activeDriverSockets (driverLocationUpdate e sid d s) =
          AList.update k
            (p\<lparr>p_latitude := lu_latitude d, p_longitude := lu_longitude d, lastUpdate := now e,
               p_status := or_str (lu_status d) ''Live'', isOnline := True\<rparr>)
            (activeDriverSockets s))
   \<and> outbox (driverLocationUpdate e sid d s) =
       outbox s @ [(ToAll, DriverLiveLocationUpdate (lu_driverId d) (lu_latitude d)
                     (lu_longitude d) (or_str (lu_status d) ''Live'') ''taxi'' (now e))]
   \<and> locationDocs (driverLocationUpdate e sid d s) =
       (case dbError e SaveLocation of
          Some err \<Rightarrow> locationDocs s
        | None \<Rightarrow>
            locationDocs s @
              [\<lparr>loc_driverId = lu_driverId d,
                loc_driverName =
                  Some (case lookup_driver (lu_driverId d) s of
                          None \<Rightarrow> ''Unknown''
                        | Some (k, p) \<Rightarrow> or_str (p_driverName p) ''Unknown''),
                loc_latitude = lu_latitude d, loc_longitude = lu_longitude d,
                loc_vehicleType = ''taxi'', loc_status = or_str (lu_status d) ''Live'',
                loc_timestamp = now e\<rparr>])"
  by (cases "lu_driverId d")
     (auto simp: driverLocationUpdate_def Let_def set_driver_def emit_def
        saveDriverLocationToDB_def update_conv' split: option.splits)

theorem driverLocationUpdate_effects_witness:
  "map_option (\<lambda>p. (p_latitude p, p_status p, lastUpdate p))
     (map_of (activeDriverSockets (driverLocationUpdate env0 1
        \<lparr>lu_driverId = Some ''D1'', lu_latitude = Some 13, lu_longitude = Some (776 / 10),
         lu_status = Some ''onRide''\<rparr> dispatch0)) ''D1'')
     = Some (Some 13, ''onRide'', 1730000000000)
   \<and> map fst (activeDriverSockets (driverLocationUpdate env0 1
        \<lparr>lu_driverId = Some ''D9'', lu_latitude = Some 13, lu_longitude = Some (776 / 10),
         lu_status = None\<rparr> dispatch0)) = [''D1'', ''D2'']"
  using driverLocationUpdate_effects
    [where d = "\<lparr>lu_driverId = Some ''D1'', lu_latitude = Some 13,
                  lu_longitude = Some (776 / 10), lu_status = Some ''onRide''\<rparr>"
       and s = dispatch0 and e = env0 and sid = 1]
    driverLocationUpdate_effects
    [where d = "\<lparr>lu_driverId = Some ''D9'', lu_latitude = Some 13,
                  lu_longitude = Some (776 / 10), lu_status = None\<rparr>"
       and s = dispatch0 and e = env0 and sid = 1]
  by (simp add: dispatch0_def presence1_def env0_def)

text \<open>
  The claim as stated fails for an unknown driver: with no driver registered, an update
  for \<^verbatim>\<open>D9\<close> is broadcast to all and a location document is written.
\<close>

theorem driverLocationUpdate_unknown_driver_counterexample:
  "lookup_driver (Some ''D9'') server0 = None
   \<and> outbox (driverLocationUpdate env0 1
        \<lparr>lu_driverId = Some ''D9'', lu_latitude = Some (129 / 10), lu_longitude = Some (776 / 10),
         lu_status = None\<rparr> server0)
       = [(ToAll, DriverLiveLocationUpdate (Some ''D9'') (Some (129 / 10)) (Some (776 / 10))
                    ''Live'' ''taxi'' 1730000000000)]
   \<and> locationDocs (driverLocationUpdate env0 1
        \<lparr>lu_driverId = Some ''D9'', lu_latitude = Some (129 / 10), lu_longitude = Some (776 / 10),
         lu_status = None\<rparr> server0)
       = [\<lparr>loc_driverId = Some ''D9'', loc_driverName = Some ''Unknown'',
           loc_latitude = Some (129 / 10), loc_longitude = Some (776 / 10),
           loc_vehicleType = ''taxi'', loc_status = ''Live'', loc_timestamp = 1730000000000\<rparr>]"
  by (simp add: driverLocationUpdate_def Let_def emit_def saveDriverLocationToDB_def env0_def
      server0_def)

subsection \<open>Rejecting and completing\<close>

text \<open>
  A name that \<^verbatim>\<open>rides\<close> only inherits, such as \<^verbatim>\<open>toString\<close>, passes the test
  \<^verbatim>\<open>if (rides[rideId])\<close>: the handler runs its branch, the driver goes back to \<^verbatim>\<open>Live\<close> and
  is told so, and the working set is left as it was.
\<close>

lemma rejectRide_inherited_name:
  assumes "rr_rideId d = Some k" and "rides s k = None" and "k \<in> set inherited_names"
  shows "rides (rejectRide e sid d s) = rides s"
    and "rideDocs (rejectRide e sid d s) = rideDocs s"
    and "map_option im_status (prototypeMarks (rejectRide e sid d s) k) = Some (Some ''rejected'')"
    and "lookup_driver (rr_driverId d) s = Some (drv, p) \<Longrightarrow>
           outbox (rejectRide e sid d s) =
             outbox s @ [(ToSocket sid, DriverStatusUpdate (rr_driverId d) ''Live'')]"
  using assms
  by (cases "rr_driverId d";
      auto simp: rejectRide_def back_to_live_def set_driver_def emit_def mark_def
        split: option.splits)+

lemma rejectRide_unknown_ride:
  "rr_rideId d = Some k \<Longrightarrow> rides s k = None \<Longrightarrow> k \<notin> set inherited_names \<Longrightarrow>
   rejectRide e sid d s = s"
  by (simp add: rejectRide_def)

lemma completeRide_inherited_name:
  assumes "rr_rideId d = Some k" and "rides s k = None" and "k \<in> set inherited_names"
    and "rr_distance d = Some km"
  shows "rides (completeRide e sid d s) = rides s"
    and "timers (completeRide e sid d s) = timers s @ [(5000, DeleteRide (Some k))]"
    and "map_option im_status (prototypeMarks (completeRide e sid d s) k) = Some (Some ''completed'')"
    and "lookup_driver (rr_driverId d) s = Some (drv, p) \<Longrightarrow>
           outbox (completeRide e sid d s) =
             outbox s @ [(ToSocket sid, DriverStatusUpdate (rr_driverId d) ''Live'')]"
  using assms
  by (cases "rr_driverId d";
      auto simp: completeRide_def back_to_live_def set_driver_def emit_def mark_def
        setTimeout_def Let_def split: option.splits)+

text \<open>
  \<^verbatim>\<open>completeRide\<close> without a numeric distance throws at its log line and does nothing.
\<close>

lemma completeRide_without_distance:
  "rr_distance d = None \<Longrightarrow> completeRide e sid d s = s"
  by (simp add: completeRide_def)

text \<open>
  C6, as the code has it. \<^verbatim>\<open>rejectRide\<close> on a ride of the working set: the working copy
  becomes \<^verbatim>\<open>rejected\<close> and the \<^verbatim>\<open>Ride\<close> collection is left as it was. When the rejecting
  driver is in \<^verbatim>\<open>activeDriverSockets\<close>, its entry goes to \<^verbatim>\<open>Live\<close> where it stands and the
  calling socket receives \<^verbatim>\<open>driverStatusUpdate\<close>; when it is not, the registry is left as
  it was and nothing is sent.
\<close>

theorem rejectRide_effects:
  assumes "rr_rideId d = Some k" and "rides s k = Some r"
  shows "rides (rejectRide e sid d s) =
           (rides s)(k \<mapsto> r\<lparr>w_status := ''rejected'', rejectedAt := Some (now e)\<rparr>)
       \<and> rideDocs (rejectRide e sid d s) = rideDocs s
       \<and> (case lookup_driver (rr_driverId d) s of
             None \<Rightarrow>
               activeDriverSockets (rejectRide e sid d s) = activeDriverSockets s
               \<and> outbox (rejectRide e sid d s) = outbox s
           | Some (drv, p) \<Rightarrow>
               activeDriverSockets (rejectRide e sid d s) =
                 AList.update drv (p\<lparr>p_status := ''Live'', isOnline := True\<rparr>)
                   (activeDriverSockets s)
               \<and> outbox (rejectRide e sid d s) =
                   outbox s @ [(ToSocket sid, DriverStatusUpdate (rr_driverId d) ''Live'')])"
  using assms
  by (cases "rr_driverId d")
     (auto simp: rejectRide_def back_to_live_def set_driver_def emit_def split: option.splits)

theorem rejectRide_effects_witness:
  "map_option w_status (rides (rejectRide env0 1 reject0 dispatch0) ''RID100001'') = Some ''rejected''
   \<and> rideDocs (rejectRide env0 1 reject0 dispatch0) = [ride0]
   \<and> map_option p_status (map_of (activeDriverSockets (rejectRide env0 1 reject0 dispatch0)) ''D1'')
       = Some ''Live''
   \<and> outbox (rejectRide env0 1 reject0 dispatch0)
       = [(ToSocket 1, DriverStatusUpdate (Some ''D1'') ''Live'')]
   \<and> map_option w_status (rides (rejectRide env0 3 reject9 dispatch0) ''RID100001'') = Some ''rejected''
   \<and> activeDriverSockets (rejectRide env0 3 reject9 dispatch0) = activeDriverSockets dispatch0
   \<and> outbox (rejectRide env0 3 reject9 dispatch0) = []"
  using rejectRide_effects
      [where d = reject0 and k = "''RID100001''" and s = dispatch0 and r = working0 and e = env0
         and sid = 1]
    rejectRide_effects
      [where d = reject9 and k = "''RID100001''" and s = dispatch0 and r = working0 and e = env0
         and sid = 3]
  by (simp add: reject0_def reject9_def dispatch0_def presence1_def working0_def)

text \<open>
  The claim as stated fails for a driver who is not in the registry (one never
  registered, or removed after five minutes offline): the ride \<^verbatim>\<open>RID100001\<close> is in the
  working set, \<^verbatim>\<open>D9\<close> rejects it, and no socket is notified and no presence entry changes.
\<close>

theorem rejectRide_unregistered_driver_counterexample:
  "rides dispatch0 ''RID100001'' = Some working0
   \<and> lookup_driver (Some ''D9'') dispatch0 = None
   \<and> map_option w_status (rides (rejectRide env0 3 reject9 dispatch0) ''RID100001'') = Some ''rejected''
   \<and> outbox (rejectRide env0 3 reject9 dispatch0) = []
   \<and> activeDriverSockets (rejectRide env0 3 reject9 dispatch0) = activeDriverSockets dispatch0"
  by (simp add: rejectRide_def back_to_live_def reject9_def dispatch0_def)

text \<open>
  C7, as the code has it. \<^verbatim>\<open>completeRide\<close> with a numeric distance, on a ride of the
  working set booked by the rider \<open>u\<close>: the working copy becomes \<^verbatim>\<open>completed\<close>, the
  rider's room receives \<^verbatim>\<open>rideCompleted\<close> with the ride identifier and the distance, and a
  timeout of 5000 ms is pending which, when it fires, removes the working copy. When the
  driver is in \<^verbatim>\<open>activeDriverSockets\<close>, its entry goes to \<^verbatim>\<open>Live\<close> where it stands and the
  calling socket receives \<^verbatim>\<open>driverStatusUpdate\<close>; when it is not, the registry is left as
  it was.
\<close>

theorem completeRide_effects:
  assumes "rr_rideId d = Some k" and "rides s k = Some r" and "rr_distance d = Some km"
    and "userId (w_data r) = Some u"
  shows "rides (completeRide e sid d s) =
           (rides s)(k \<mapsto> r\<lparr>w_status := ''completed'', completedAt := Some (now e),
                               w_distance := Some km\<rparr>)
       \<and> timers (completeRide e sid d s) = timers s @ [(5000, DeleteRide (Some k))]
       \<and> rides (fire (length (timers s)) (completeRide e sid d s)) k = None
       \<and> (case lookup_driver (rr_driverId d) s of
             None \<Rightarrow>
               activeDriverSockets (completeRide e sid d s) = activeDriverSockets s
               \<and> outbox (completeRide e sid d s) =
                   outbox s @ [(ToRoom u, RideCompleted (Some k) (Some km))]
           | Some (drv, p) \<Rightarrow>
               activeDriverSockets (completeRide e sid d s) =
                 AList.update drv (p\<lparr>p_status := ''Live'', isOnline := True\<rparr>)
                   (activeDriverSockets s)
               \<and> outbox (completeRide e sid d s) =
                   outbox s @ [(ToRoom u, RideCompleted (Some k) (Some km)),
                               (ToSocket sid, DriverStatusUpdate (rr_driverId d) ''Live'')])"
  using assms
  by (cases "rr_driverId d")
     (auto simp: completeRide_def back_to_live_def set_driver_def emit_def setTimeout_def
        fire_def Let_def split: option.splits)

theorem completeRide_effects_witness:
  "map_option w_status (rides (completeRide env0 1 complete0 dispatch0) ''RID100001'') = Some ''completed''
   \<and> timers (completeRide env0 1 complete0 dispatch0) = [(5000, DeleteRide (Some ''RID100001''))]
   \<and> rides (fire 0 (completeRide env0 1 complete0 dispatch0)) ''RID100001'' = None
   \<and> map_option p_status (map_of (activeDriverSockets (completeRide env0 1 complete0 dispatch0)) ''D1'')
       = Some ''Live''
   \<and> outbox (completeRide env0 1 complete0 dispatch0) =
        [(ToRoom ''u1'', RideCompleted (Some ''RID100001'') (Some (32 / 10))),
         (ToSocket 1, DriverStatusUpdate (Some ''D1'') ''Live'')]
   \<and> map_option w_status (rides (completeRide env0 3 complete9 dispatch0) ''RID100001'')
       = Some ''completed''
   \<and> activeDriverSockets (completeRide env0 3 complete9 dispatch0) = activeDriverSockets dispatch0
   \<and> outbox (completeRide env0 3 complete9 dispatch0) =
        [(ToRoom ''u1'', RideCompleted (Some ''RID100001'') (Some (32 / 10)))]"
  using completeRide_effects
      [where d = complete0 and k = "''RID100001''" and s = dispatch0 and r = working0
         and km = "32 / 10" and u = "''u1''" and e = env0 and sid = 1]
    completeRide_effects
      [where d = complete9 and k = "''RID100001''" and s = dispatch0 and r = working0
         and km = "32 / 10" and u = "''u1''" and e = env0 and sid = 3]
  by (simp add: complete0_def complete9_def dispatch0_def presence1_def working0_def request0_def)

text \<open>
  The claim as stated fails on two calls for the ride \<^verbatim>\<open>RID100001\<close> of the working set.
  Completed by \<^verbatim>\<open>D9\<close>, who is not in the registry, the rider is notified but no presence
  entry goes to \<^verbatim>\<open>Live\<close>. Completed by \<^verbatim>\<open>D1\<close> without a distance, nothing happens at all:
  the working copy stays \<^verbatim>\<open>pending\<close>, nobody is notified and no timeout is set.
\<close>

theorem completeRide_counterexample:
  "rides dispatch0 ''RID100001'' = Some working0
   \<and> lookup_driver (Some ''D9'') dispatch0 = None
   \<and> activeDriverSockets (completeRide env0 3 complete9 dispatch0) = activeDriverSockets dispatch0
   \<and> outbox (completeRide env0 3 complete9 dispatch0) =
        [(ToRoom ''u1'', RideCompleted (Some ''RID100001'') (Some (32 / 10)))]
   \<and> completeRide env0 1 (complete0\<lparr>rr_distance := None\<rparr>) dispatch0 = dispatch0"
  by (simp add: completeRide_def back_to_live_def complete9_def complete0_def dispatch0_def
      working0_def request0_def emit_def setTimeout_def Let_def)

subsection \<open>Booking\<close>

lemma generate_frame:
  "\<exists>q. snd (generateSequentialRaidId e s) = s\<lparr>sequence := q\<rparr>"
  by (auto simp: generateSequentialRaidId_def Let_def split: option.splits intro: exI[of _ "sequence s"])

text \<open>
  The ride of the scenario is the one \<^verbatim>\<open>bookRide\<close> stores for the rider's request: the
  counter moves to 100001, the OTP is the last four characters of the customer
  identifier, all connections receive \<^verbatim>\<open>newRideRequest\<close> and the callback a success.
\<close>

lemma bookRide_scenario:
  "bookRide env0 3 request0 True
     (dispatch0\<lparr>sequence := Some 100000, rideDocs := [], rides := Map.empty\<rparr>)
   = dispatch0\<lparr>outbox :=
       [(ToAll, NewRideRequest request0 ''RID100001'' ''65f0a1c2''),
        (Callback 3, BookingOk ''RID100001'' ''65f0a1c2'' (Some ''4821'')
                       ''Ride booked successfully!'')]\<rparr>"
proof -
  have t: "toString 100001 = ''100001''"
    by (simp add: toString.simps digit_char_def)
  have g: "generateSequentialRaidId env0 (dispatch0\<lparr>sequence := Some 100000, rideDocs := [], rides := Map.empty\<rparr>)
             = (''RID100001'', dispatch0\<lparr>sequence := Some 100001, rideDocs := [], rides := Map.empty\<rparr>)"
    by (simp add: generateSequentialRaidId_def env0_def t padStart_def)
  have o: "makeOtp env0 request0 = ''4821''"
    by (simp add: makeOtp_def request0_def slice_last_def)
  have v: "\<not> missing_required request0"
    by (simp add: missing_required_def request0_def)
  have e: "dbError env0 op = None" "now env0 = 1730000000000" "newId env0 = ''65f0a1c2''" for op
    by (simp_all add: env0_def)
  have i: "doc_id ride0 = ''65f0a1c2''"
    by (simp add: ride0_def rideData_def e)
  show ?thesis
    by (simp add: bookRide_def bookRide_prepare_def g o v e Let_def findRide_def)
       (simp add: bookRide_save_def e duplicate_key_def Let_def release_def respond_def emit_def
          ride0_def[symmetric] i working0_def dispatch0_def)
qed

text \<open>
  Every working copy that \<^verbatim>\<open>bookRide\<close> adds carries the \<^verbatim>\<open>userId\<close> of its booking: the
  validation has passed by then.
\<close>

lemma release_rides [simp]: "rides (release k s) = rides s"
  by (simp add: release_def)

lemma respond_rides [simp]: "rides (respond cb sid ev s) = rides s"
  by (simp add: respond_def emit_def)

lemma bookRide_working_copy_has_user:
  assumes "rides (bookRide e sid d cb s) k = Some r" and "rides s k \<noteq> Some r"
  shows "truthy_str (userId (w_data r))"
proof -
  obtain rideId s0 where g: "generateSequentialRaidId e s = (rideId, s0)"
    by (cases "generateSequentialRaidId e s")
  obtain q where s0: "s0 = s\<lparr>sequence := q\<rparr>"
    using generate_frame[of e s] g by auto
  have prep: "rides (snd (bookRide_prepare e sid d cb s)) = rides s"
    by (simp add: bookRide_prepare_def g Let_def s0 split: option.splits)
  show ?thesis
  proof (cases "bookRide_prepare e sid d cb s")
    case (Pair pc s1)
    then have r1: "rides s1 = rides s" using prep by simp
    show ?thesis
    proof (cases pc)
      case BookDone
      then show ?thesis using assms Pair r1 by (simp add: bookRide_def)
    next
      case (AwaitSaveRide i code)
      have valid: "\<not> missing_required d"
        using Pair AwaitSaveRide
        by (auto simp: bookRide_prepare_def g Let_def split: if_splits option.splits)
      have "w_data r = d"
        using assms Pair AwaitSaveRide r1
        by (auto simp: bookRide_def bookRide_save_def Let_def emit_def
            split: option.splits if_splits)
      then show ?thesis using valid by (simp add: missing_required_def)
    qed
  qed
qed

lemma bookRide_prepare_missing:
  assumes "missing_required d" and "generateSequentialRaidId e s = (rideId, s0)"
  shows "bookRide_prepare e sid d cb s =
           (BookDone,
            release rideId
              (respond cb sid
                 (BookingFailed (if rideId \<in> processingRides s0
                                 then ''Ride is already being processed''
                                 else ''Missing required fields''))
                 (if rideId \<in> processingRides s0 then s0 else s0\<lparr>processingRides := processingRides s0 - {rideId}\<rparr>)))"
  using assms by (simp add: bookRide_prepare_def Let_def release_def)

text \<open>
  C5, as the code has it. A \<^verbatim>\<open>bookRide\<close> request with a required field missing (or
  empty) stores no ride, in the collection or in memory. Its callback, when there is
  one, receives a failure whose message is the fixed text \<^verbatim>\<open>Missing required fields\<close>
  (or \<^verbatim>\<open>Ride is already being processed\<close> when the generated identifier is held by
  another run); the message does not name the fields.
\<close>

theorem bookRide_missing_fields:
  assumes "missing_required d"
  shows "rideDocs (bookRide e sid d cb s) = rideDocs s
       \<and> rides (bookRide e sid d cb s) = rides s
       \<and> outbox (bookRide e sid d cb s) =
           (if cb
            then outbox s @
                 [(Callback sid,
                   BookingFailed
                     (if fst (generateSequentialRaidId e s) \<in> processingRides s
                      then ''Ride is already being processed''
                      else ''Missing required fields''))]
            else outbox s)"
proof -
  obtain rideId s0 where g: "generateSequentialRaidId e s = (rideId, s0)"
    by (cases "generateSequentialRaidId e s")
  obtain q where s0: "s0 = s\<lparr>sequence := q\<rparr>"
    using generate_frame[of e s] g by auto
  show ?thesis
    unfolding bookRide_def bookRide_prepare_missing[OF assms g]
    by (simp add: g s0 release_def respond_def emit_def)
qed

theorem bookRide_missing_fields_witness:
  "rideDocs (bookRide env0 3 (request0\<lparr>pickup := None\<rparr>) True dispatch0) = [ride0]
   \<and> dom (rides (bookRide env0 3 (request0\<lparr>pickup := None\<rparr>) True dispatch0)) = {''RID100001''}
   \<and> outbox (bookRide env0 3 (request0\<lparr>pickup := None\<rparr>) True dispatch0)
       = [(Callback 3, BookingFailed ''Missing required fields'')]"
  using bookRide_missing_fields [of "request0\<lparr>pickup := None\<rparr>" env0 3 True dispatch0]
  by (simp add: missing_required_def request0_def generateSequentialRaidId_def env0_def
      dispatch0_def)

text \<open>
  The claim as stated fails on the message: for a request without \<^verbatim>\<open>pickup\<close> the callback
  receives \<^verbatim>\<open>Missing required fields\<close>, in which \<^verbatim>\<open>pickup\<close> does not occur.
\<close>

theorem bookRide_missing_pickup_counterexample:
  "missing_required (request0\<lparr>pickup := None\<rparr>)
   \<and> callbacks 1 (bookRide env0 1 (request0\<lparr>pickup := None\<rparr>) True server0)
       = [BookingFailed ''Missing required fields'']
   \<and> \<not> contains ''pickup'' ''Missing required fields''"
  by (simp add: bookRide_def bookRide_prepare_def generateSequentialRaidId_def Let_def
      missing_required_def request0_def env0_def server0_def release_def respond_def emit_def
      callbacks_def)

text \<open>
  C2. When the identifier a \<^verbatim>\<open>bookRide\<close> run generates is already the \<^verbatim>\<open>RAID_ID\<close> of a
  stored ride, the run stores no second document, whatever its payload; with the required
  fields present, the identifier free in \<^verbatim>\<open>processingRides\<close> and the lookup answering,
  its callback receives a success that carries the identifier and the stored ride's
  \<^verbatim>\<open>_id\<close> and \<^verbatim>\<open>otp\<close>. The same holds at the save, should the ride have been stored by
  then: the duplicate-key branch answers with the stored ride.
\<close>

theorem bookRide_same_identifier:
  "(generateSequentialRaidId e s = (rideId, s0) \<and> findRide rideId s = Some existing
     \<longrightarrow> rideDocs (bookRide e sid d cb s) = rideDocs s)
   \<and> (generateSequentialRaidId e s = (rideId, s0) \<and> findRide rideId s = Some existing
        \<and> \<not> missing_required d \<and> rideId \<notin> processingRides s \<and> dbError e FindRide = None
     \<longrightarrow> outbox (bookRide e sid d True s) =
           outbox s @ [(Callback sid,
                        BookingOk rideId (doc_id existing) (otp existing) ''Ride already exists'')])
   \<and> (findRide rideId s = Some existing
     \<longrightarrow> rideDocs (bookRide_save e sid d cb rideId code s) = rideDocs s)
   \<and> (findRide rideId s = Some existing \<and> dbError e SaveRide = None
        \<and> dbError e FindRideAgain = None
     \<longrightarrow> outbox (bookRide_save e sid d True rideId code s) =
           outbox s @ [(Callback sid,
                        BookingOk rideId (doc_id existing) (otp existing)
                          ''Ride already exists (duplicate handled)'')])"
proof -
  have docs: "rideDocs (bookRide e sid d cb s) = rideDocs s"
    if g: "generateSequentialRaidId e s = (rideId, s0)" and f: "findRide rideId s = Some existing"
  proof -
    obtain q where s0: "s0 = s\<lparr>sequence := q\<rparr>"
      using generate_frame[of e s] g by auto
    have f0: "findRide rideId (s0\<lparr>processingRides := insert rideId (processingRides s0)\<rparr>)
                = Some existing"
      using f by (simp add: findRide_def s0)
    show ?thesis
      using f0
      by (simp add: bookRide_def bookRide_prepare_def g Let_def release_def respond_def emit_def
          s0 split: option.splits)
  qed
  have answer: "outbox (bookRide e sid d True s) =
           outbox s @ [(Callback sid,
                        BookingOk rideId (doc_id existing) (otp existing) ''Ride already exists'')]"
    if g: "generateSequentialRaidId e s = (rideId, s0)" and f: "findRide rideId s = Some existing"
      and v: "\<not> missing_required d" and p: "rideId \<notin> processingRides s"
      and db: "dbError e FindRide = None"
  proof -
    obtain q where s0: "s0 = s\<lparr>sequence := q\<rparr>"
      using generate_frame[of e s] g by auto
    have f0: "findRide rideId (s0\<lparr>processingRides := insert rideId (processingRides s0)\<rparr>)
                = Some existing"
      using f by (simp add: findRide_def s0)
    show ?thesis
      using v p db f0
      by (simp add: bookRide_def bookRide_prepare_def g Let_def)
         (simp add: s0 release_def respond_def emit_def)
  qed
  have dup: "duplicate_key rideId s" if f: "findRide rideId s = Some existing"
    using f by (auto simp: duplicate_key_def findRide_def list_ex_iff find_Some_iff)
  have docs2: "rideDocs (bookRide_save e sid d cb rideId code s) = rideDocs s"
    if f: "findRide rideId s = Some existing"
    using dup[OF f] f
    by (simp add: bookRide_save_def release_def respond_def emit_def split: option.splits)
  have answer2: "outbox (bookRide_save e sid d True rideId code s) =
           outbox s @ [(Callback sid,
                        BookingOk rideId (doc_id existing) (otp existing)
                          ''Ride already exists (duplicate handled)'')]"
    if f: "findRide rideId s = Some existing" and db: "dbError e SaveRide = None"
      "dbError e FindRideAgain = None"
    using dup[OF f] f db
    by (simp add: bookRide_save_def release_def respond_def emit_def)
  show ?thesis using docs answer docs2 answer2 by blast
qed

theorem bookRide_same_identifier_witness:
  "outbox (bookRide env0 3 request0 True (dispatch0\<lparr>sequence := Some 100000\<rparr>))
     = [(Callback 3, BookingOk ''RID100001'' ''65f0a1c2'' (Some ''4821'') ''Ride already exists'')]
   \<and> rideDocs (bookRide env0 3 request0 True (dispatch0\<lparr>sequence := Some 100000\<rparr>)) = [ride0]
   \<and> outbox (bookRide_save env0 3 request0 True ''RID100001'' ''4821'' dispatch0)
     = [(Callback 3, BookingOk ''RID100001'' ''65f0a1c2'' (Some ''4821'')
                       ''Ride already exists (duplicate handled)'')]
   \<and> rideDocs (bookRide_save env0 3 request0 True ''RID100001'' ''4821'' dispatch0) = [ride0]"
proof -
  have t: "toString 100001 = ''100001''"
    by (simp add: toString.simps digit_char_def)
  have g: "generateSequentialRaidId env0 (dispatch0\<lparr>sequence := Some 100000\<rparr>)
             = (''RID100001'', dispatch0\<lparr>sequence := Some 100001\<rparr>)"
    by (simp add: generateSequentialRaidId_def env0_def t padStart_def)
  have r: "RAID_ID ride0 = ''RID100001''" "doc_id ride0 = ''65f0a1c2''" "otp ride0 = Some ''4821''"
    by (simp_all add: ride0_def rideData_def env0_def)
  have f: "findRide ''RID100001'' (dispatch0\<lparr>sequence := Some 100000\<rparr>) = Some ride0"
          "findRide ''RID100001'' dispatch0 = Some ride0"
    by (simp_all add: findRide_def dispatch0_def r)
  have v: "\<not> missing_required request0"
    by (simp add: missing_required_def request0_def)
  have e: "dbError env0 FindRide = None" "dbError env0 SaveRide = None"
    "dbError env0 FindRideAgain = None"
    by (simp_all add: env0_def)
  have p: "''RID100001'' \<notin> processingRides (dispatch0\<lparr>sequence := Some 100000\<rparr>)"
    by (simp add: dispatch0_def)
  show ?thesis
    using bookRide_same_identifier
      [where e = env0 and s = "dispatch0\<lparr>sequence := Some 100000\<rparr>"
         and rideId = "''RID100001''" and ?s0.0 = "dispatch0\<lparr>sequence := Some 100001\<rparr>"
         and existing = ride0 and d = request0 and sid = 3 and cb = True]
      bookRide_same_identifier
      [where e = env0 and s = dispatch0 and rideId = "''RID100001''" and existing = ride0
         and d = request0 and sid = 3 and code = "''4821''" and cb = True]
      g f v e p
    by (simp add: r) (simp add: dispatch0_def)
qed

subsection \<open>Accepting\<close>

lemma toString_nonempty: "toString n \<noteq> []"
  by (subst toString.simps) simp

lemma find_map_same:
  "(\<And>x. P (f x) = P x) \<Longrightarrow> find P (map f xs) = map_option f (find P xs)"
  by (induction xs) simp_all

lemma acceptRide_steps_success:
  assumes "findRideOpt (ar_rideId a) s = Some ride" and "status ride \<noteq> ''accepted''"
    and "dbError e FindRide = None" and "dbError e FindDriver = None"
    and "dbError e SaveAccepted = None"
  shows "acceptRide_step e sid a cb AwaitRide s =
           (AwaitDriver (ride\<lparr>status := ''accepted'', ride_driverId := ar_driverId a,
                               ride_driverName := ar_driverName a\<rparr>), s)"
    and "acceptRide_step e sid a cb
           (AwaitDriver (ride\<lparr>status := ''accepted'', ride_driverId := ar_driverId a,
                               ride_driverName := ar_driverName a\<rparr>)) s =
           (AwaitSave (accepted_doc e a ride s) (findDriver (ar_driverId a) s)
              (\<not> truthy_str (otp ride)), s)"
    and "acceptRide_step e sid a cb
           (AwaitSave (accepted_doc e a ride s) (findDriver (ar_driverId a) s) otpSet) s' =
           (AwaitSockets (accepted_doc e a ride s) (accepted_payload e a ride s),
            emit (ToRoom (user ride)) (RideAccepted (accepted_payload e a ride s))
              (respond cb sid (AcceptOk (accepted_payload e a ride s))
                 (saveAccepted (accepted_doc e a ride s) otpSet s')))"
  using assms
  by (auto simp: acceptRide_step_def accepted_doc_def accepted_payload_def Let_def)

lemma acceptRide_last_step_outbox:
  "\<exists>before after.
     outbox (snd (acceptRide_step e sid a cb (AwaitSockets ride payload) s)) =
       outbox s @ before @ [(ToAll, RideAcceptedGlobal payload (user ride) (now e))] @ after"
proof -
  let ?direct = "map (\<lambda>i. (ToSocket i, RideAccepted payload))
                   (map sock_id (filter (\<lambda>k. user ride \<in> set (sock_rooms k)) (sockets s)))"
  show ?thesis
    by (rule exI[of _ ?direct])
       (auto simp: acceptRide_step_def Let_def emit_each_def emit_def setTimeout_def set_driver_def
          split: option.splits)
qed

lemma acceptRide_success_run:
  assumes "findRideOpt (ar_rideId a) s = Some ride" and "status ride \<noteq> ''accepted''"
    and "dbError e FindRide = None" and "dbError e FindDriver = None"
    and "dbError e SaveAccepted = None"
  shows "acceptRide e sid a cb s =
           snd (acceptRide_step e sid a cb
                  (AwaitSockets (accepted_doc e a ride s) (accepted_payload e a ride s))
                  (emit (ToRoom (user ride)) (RideAccepted (accepted_payload e a ride s))
                     (respond cb sid (AcceptOk (accepted_payload e a ride s))
                        (saveAccepted (accepted_doc e a ride s) (\<not> truthy_str (otp ride)) s))))"
  by (simp add: acceptRide_def acceptRide_steps_success[OF assms] split_def)

lemma accepted_payload_fields:
  "truthy_str (dd_otp (accepted_payload e a ride s))"
  "dd_driverMobile (accepted_payload e a ride s) =
     (case findDriver (ar_driverId a) s of None \<Rightarrow> Some ''N/A'' | Some dr \<Rightarrow> phone dr)"
  "dd_pickup (accepted_payload e a ride s) = ride_pickup ride"
  "dd_drop (accepted_payload e a ride s) = ride_drop ride"
  "dd_rideId (accepted_payload e a ride s) = RAID_ID ride"
  "dd_status (accepted_payload e a ride s) = ''accepted''"
  "dd_driverId (accepted_payload e a ride s) = ar_driverId a"
  by (simp_all add: accepted_payload_def accepted_doc_def driverData_def Let_def randomOtp_def
      toString_nonempty)

text \<open>
  C9. A run of \<^verbatim>\<open>acceptRide\<close> that finds the ride, finds it not yet accepted and meets no
  database error emits its payload to every connection as \<^verbatim>\<open>rideAcceptedGlobal\<close>, besides
  the rider's room and the driver's callback. The payload carries an OTP (the stored one,
  or a generated one), the driver's phone (\<^verbatim>\<open>N/A\<close> without a driver document) and the
  stored pickup and drop.
\<close>

theorem acceptRide_global_emit:
  assumes "findRideOpt (ar_rideId a) s = Some ride" and "status ride \<noteq> ''accepted''"
    and "dbError e FindRide = None" and "dbError e FindDriver = None"
    and "dbError e SaveAccepted = None"
  shows "(ToAll, RideAcceptedGlobal (accepted_payload e a ride s) (user ride) (now e))
           \<in> set (outbox (acceptRide e sid a cb s))
       \<and> (ToRoom (user ride), RideAccepted (accepted_payload e a ride s))
           \<in> set (outbox (acceptRide e sid a cb s))
       \<and> (cb \<longrightarrow> (Callback sid, AcceptOk (accepted_payload e a ride s))
                  \<in> set (outbox (acceptRide e sid a cb s)))
       \<and> truthy_str (dd_otp (accepted_payload e a ride s))
       \<and> dd_driverMobile (accepted_payload e a ride s) =
           (case findDriver (ar_driverId a) s of None \<Rightarrow> Some ''N/A'' | Some dr \<Rightarrow> phone dr)
       \<and> dd_pickup (accepted_payload e a ride s) = ride_pickup ride
       \<and> dd_drop (accepted_payload e a ride s) = ride_drop ride"
proof -
  let ?P = "accepted_payload e a ride s"
  let ?s3 = "emit (ToRoom (user ride)) (RideAccepted ?P)
               (respond cb sid (AcceptOk ?P)
                  (saveAccepted (accepted_doc e a ride s) (\<not> truthy_str (otp ride)) s))"
  obtain before after where
    out: "outbox (acceptRide e sid a cb s) =
            outbox ?s3 @ before @ [(ToAll, RideAcceptedGlobal ?P (user ride) (now e))] @ after"
    using acceptRide_last_step_outbox[of e sid a cb "accepted_doc e a ride s" ?P ?s3]
    by (auto simp: acceptRide_success_run[OF assms] accepted_doc_def Let_def)
  have room: "(ToRoom (user ride), RideAccepted ?P) \<in> set (outbox ?s3)"
    by (simp add: emit_def)
  have call: "cb \<Longrightarrow> (Callback sid, AcceptOk ?P) \<in> set (outbox ?s3)"
    by (simp add: emit_def respond_def)
  have c1: "(ToAll, RideAcceptedGlobal ?P (user ride) (now e)) \<in> set (outbox (acceptRide e sid a cb s))"
    unfolding out by simp
  have c2: "(ToRoom (user ride), RideAccepted ?P) \<in> set (outbox (acceptRide e sid a cb s))"
    unfolding out using room by simp
  have c3: "cb \<longrightarrow> (Callback sid, AcceptOk ?P) \<in> set (outbox (acceptRide e sid a cb s))"
    unfolding out using call by auto
  show ?thesis
    using c1 c2 c3 accepted_payload_fields(1-4)[of e a ride s] by blast
qed

theorem acceptRide_global_emit_witness:
  "(ToAll, RideAcceptedGlobal (accepted_payload env0 accept1 ride0 dispatch0) ''u1'' 1730000000000)
      \<in> set (outbox (acceptRide env0 1 accept1 True dispatch0))
   \<and> dd_otp (accepted_payload env0 accept1 ride0 dispatch0) = Some ''4821''
   \<and> dd_driverMobile (accepted_payload env0 accept1 ride0 dispatch0) = Some ''9000000001''
   \<and> addr (dd_pickup (accepted_payload env0 accept1 ride0 dispatch0)) = ''MG Road''
   \<and> addr (dd_drop (accepted_payload env0 accept1 ride0 dispatch0)) = ''Selected Location''"
proof -
  have r: "RAID_ID ride0 = ''RID100001''" "status ride0 = ''pending''" "user ride0 = ''u1''"
    "otp ride0 = Some ''4821''" "addr (ride_pickup ride0) = ''MG Road''"
    "addr (ride_drop ride0) = ''Selected Location''"
    by (simp_all add: ride0_def rideData_def request0_def)
  have f: "findRideOpt (ar_rideId accept1) dispatch0 = Some ride0"
    by (simp add: accept1_def findRide_def dispatch0_def r)
  have e: "dbError env0 FindRide = None" "dbError env0 FindDriver = None"
    "dbError env0 SaveAccepted = None" "now env0 = 1730000000000"
    by (simp_all add: env0_def)
  have d: "findDriver (ar_driverId accept1) dispatch0 =
             Some \<lparr>driver_driverId = ''D1'', phone = Some ''9000000001'',
                   coordinates = Some (776 / 10, 129 / 10), driver_vehicleType = Some ''taxi''\<rparr>"
    by (simp add: findDriver_def accept1_def dispatch0_def)
  have o: "dd_otp (accepted_payload env0 accept1 ride0 dispatch0) = Some ''4821''"
    by (simp add: accepted_payload_def accepted_doc_def driverData_def Let_def r)
  show ?thesis
    using acceptRide_global_emit
      [where a = accept1 and s = dispatch0 and ride = ride0 and e = env0 and sid = 1 and cb = True]
      f e d o
    by (simp add: r)
qed

text \<open>
  A ride already accepted: the run answers \<^verbatim>\<open>AlreadyAccepted\<close>, tells the other sockets
  and leaves the collection as it is. So of two runs, one after the other, on a pending
  ride, the first succeeds and the second is refused.
\<close>

lemma acceptRide_already_accepted:
  assumes "findRideOpt (ar_rideId a) s = Some ride" and "status ride = ''accepted''"
    and "dbError e FindRide = None"
  shows "acceptRide e sid a cb s =
           respond cb sid (AcceptFailed already_accepted)
             (emit (ToOthers sid) (RideAlreadyAccepted (ar_rideId a) already_accepted) s)"
  using assms by (simp add: acceptRide_def acceptRide_step_def)

lemma acceptRide_already_accepted_frame:
  assumes "findRideOpt (ar_rideId a) s = Some ride" and "status ride = ''accepted''"
    and "dbError e FindRide = None"
  shows "rideDocs (acceptRide e sid a cb s) = rideDocs s"
    and "callbacks sid (acceptRide e sid a True s) = callbacks sid s @ [AcceptFailed already_accepted]"
    and "(ToOthers sid, RideAlreadyAccepted (ar_rideId a) already_accepted)
           \<in> set (outbox (acceptRide e sid a cb s))"
  by (simp_all add: acceptRide_already_accepted[OF assms] respond_def emit_def callbacks_def)

lemma last_step_frame:
  "rideDocs (snd (acceptRide_step e sid a cb (AwaitSockets ride payload) s)) = rideDocs s"
  "callbacks x (snd (acceptRide_step e sid a cb (AwaitSockets ride payload) s)) = callbacks x s"
  by (auto simp: acceptRide_step_def Let_def emit_each_def emit_def setTimeout_def set_driver_def
      callbacks_def split: option.splits)

lemma acceptRide_stores_acceptance:
  assumes "findRideOpt (ar_rideId a) s = Some ride" and "status ride \<noteq> ''accepted''"
    and "dbError e FindRide = None" and "dbError e FindDriver = None"
    and "dbError e SaveAccepted = None"
  shows "\<exists>ride'. findRideOpt (ar_rideId a) (acceptRide e sid a cb s) = Some ride'
           \<and> status ride' = ''accepted'' \<and> ride_driverId ride' = ar_driverId a"
    and "callbacks sid (acceptRide e sid a True s) =
           callbacks sid s @ [AcceptOk (accepted_payload e a ride s)]"
proof -
  obtain k where k: "ar_rideId a = Some k" using assms(1) by (cases "ar_rideId a") auto
  let ?D = "accepted_doc e a ride s"
  let ?f = "\<lambda>r. if doc_id r = doc_id ?D
                 then r\<lparr>status := status ?D, ride_driverId := ride_driverId ?D,
                        ride_driverName := ride_driverName ?D, driverMobile := driverMobile ?D,
                        otp := (if \<not> truthy_str (otp ride) then otp ?D else otp r)\<rparr>
                 else r"
  have fd: "find (\<lambda>r. RAID_ID r = k) (rideDocs s) = Some ride"
    using assms(1) k by (simp add: findRide_def)
  have "find (\<lambda>r. RAID_ID r = k) (map ?f (rideDocs s)) = map_option ?f (find (\<lambda>r. RAID_ID r = k) (rideDocs s))"
    by (rule find_map_same) simp
  then have found: "find (\<lambda>r. RAID_ID r = k) (map ?f (rideDocs s)) = Some (?f ride)"
    by (simp add: fd)
  have same: "doc_id ?D = doc_id ride" by (simp add: accepted_doc_def Let_def)
  have st: "status ?D = ''accepted''" "ride_driverId ?D = ar_driverId a"
    by (simp_all add: accepted_doc_def Let_def)
  have docs: "rideDocs (acceptRide e sid a cb s) = map ?f (rideDocs s)"
    by (simp add: acceptRide_success_run[OF assms] last_step_frame emit_def respond_def
        saveAccepted_def)
  have "findRideOpt (ar_rideId a) (acceptRide e sid a cb s)
          = find (\<lambda>r. RAID_ID r = k) (map ?f (rideDocs s))"
    by (simp only: k findRideOpt.simps findRide_def docs)
  then have fr: "findRideOpt (ar_rideId a) (acceptRide e sid a cb s) = Some (?f ride)"
    by (simp only: found)
  have "status (?f ride) = ''accepted''" "ride_driverId (?f ride) = ar_driverId a"
    by (simp_all add: same st)
  then show "\<exists>ride'. findRideOpt (ar_rideId a) (acceptRide e sid a cb s) = Some ride'
           \<and> status ride' = ''accepted'' \<and> ride_driverId ride' = ar_driverId a"
    using fr by blast
  show "callbacks sid (acceptRide e sid a True s) =
           callbacks sid s @ [AcceptOk (accepted_payload e a ride s)]"
    by (simp add: acceptRide_success_run[OF assms] last_step_frame)
       (simp add: callbacks_def emit_def respond_def saveAccepted_def)
qed

lemma acceptRide_one_after_the_other:
  assumes "findRideOpt (ar_rideId a) s = Some ride" and "status ride \<noteq> ''accepted''"
    and "ar_rideId b = ar_rideId a" and "sid \<noteq> sid'"
    and "dbError e FindRide = None" and "dbError e FindDriver = None"
    and "dbError e SaveAccepted = None" and "dbError e' FindRide = None"
  shows "callbacks sid (acceptRide e' sid' b True (acceptRide e sid a True s)) =
           callbacks sid s @ [AcceptOk (accepted_payload e a ride s)]"
    and "callbacks sid' (acceptRide e' sid' b True (acceptRide e sid a True s)) =
           callbacks sid' s @ [AcceptFailed already_accepted]"
    and "rideDocs (acceptRide e' sid' b True (acceptRide e sid a True s)) =
           rideDocs (acceptRide e sid a True s)"
proof -
  let ?s1 = "acceptRide e sid a True s"
  obtain ride' where r: "findRideOpt (ar_rideId b) ?s1 = Some ride'" "status ride' = ''accepted''"
    using acceptRide_stores_acceptance(1)[OF assms(1,2,5,6,7), of sid True] assms(3) by auto
  have second: "acceptRide e' sid' b True ?s1 =
                  respond True sid' (AcceptFailed already_accepted)
                    (emit (ToOthers sid') (RideAlreadyAccepted (ar_rideId b) already_accepted) ?s1)"
    using r assms(8) by (rule acceptRide_already_accepted)
  have other: "callbacks sid' ?s1 = callbacks sid' s"
    using assms(4)
    by (simp add: acceptRide_success_run[OF assms(1,2,5,6,7)] last_step_frame)
       (simp add: callbacks_def emit_def respond_def saveAccepted_def)
  show "callbacks sid (acceptRide e' sid' b True ?s1) =
           callbacks sid s @ [AcceptOk (accepted_payload e a ride s)]"
    using assms(4)
    by (simp add: second callbacks_def respond_def emit_def
        acceptRide_stores_acceptance(2)[OF assms(1,2,5,6,7), unfolded callbacks_def])
  show "callbacks sid' (acceptRide e' sid' b True ?s1) = callbacks sid' s @ [AcceptFailed already_accepted]"
    using other by (simp add: second callbacks_def respond_def emit_def)
  show "rideDocs (acceptRide e' sid' b True ?s1) = rideDocs ?s1"
    by (simp add: second respond_def emit_def)
qed

lemma ride0_fields:
  "RAID_ID ride0 = ''RID100001''" "status ride0 = ''pending''" "user ride0 = ''u1''"
  "otp ride0 = Some ''4821''" "doc_id ride0 = ''65f0a1c2''"
  by (simp_all add: ride0_def rideData_def request0_def env0_def)

lemma env0_fields:
  "dbError env0 op = None" "now env0 = 1730000000000"
  by (simp_all add: env0_def)

lemma found1: "findRideOpt (ar_rideId accept1) dispatch0 = Some ride0"
  by (simp add: accept1_def findRide_def dispatch0_def ride0_fields)

lemma found2: "findRideOpt (ar_rideId accept2) dispatch0 = Some ride0"
  by (simp add: accept2_def findRide_def dispatch0_def ride0_fields)

lemma pending0: "status ride0 \<noteq> ''accepted''"
  by (simp add: ride0_fields)

lemmas steps1 = acceptRide_steps_success [OF found1 pending0 env0_fields(1) env0_fields(1) env0_fields(1)]
lemmas steps2 = acceptRide_steps_success [OF found2 pending0 env0_fields(1) env0_fields(1) env0_fields(1)]

lemma race_steps:
  "race =
     (let P1 = accepted_payload env0 accept1 ride0 dispatch0;
          P2 = accepted_payload env0 accept2 ride0 dispatch0;
          D1 = accepted_doc env0 accept1 ride0 dispatch0;
          D2 = accepted_doc env0 accept2 ride0 dispatch0;
          s1 = emit (ToRoom ''u1'') (RideAccepted P1)
                 (respond True 1 (AcceptOk P1) (saveAccepted D1 False dispatch0));
          s2 = emit (ToRoom ''u1'') (RideAccepted P2)
                 (respond True 2 (AcceptOk P2) (saveAccepted D2 False s1));
          s3 = snd (acceptRide_step env0 1 accept1 True (AwaitSockets D1 P1) s2);
          s4 = snd (acceptRide_step env0 2 accept2 True (AwaitSockets D2 P2) s3)
      in ([run1\<lparr>run_pc := fst (acceptRide_step env0 1 accept1 True (AwaitSockets D1 P1) s2)\<rparr>,
           run2\<lparr>run_pc := fst (acceptRide_step env0 2 accept2 True (AwaitSockets D2 P2) s3)\<rparr>], s4))"
  unfolding race_def
  by (simp add: run1_def run2_def steps1 steps2 ride0_fields split_def Let_def)

lemma last_step_done:
  "fst (acceptRide_step e sid a cb (AwaitSockets ride payload) s) = AcceptDone"
  by (simp add: acceptRide_step_def Let_def)

text \<open>The same two requests, one run after the other.\<close>

lemma acceptRide_in_turn:
  "callbacks 1 (acceptRide env0 2 accept2 True (acceptRide env0 1 accept1 True dispatch0))
     = [AcceptOk (accepted_payload env0 accept1 ride0 dispatch0)]
   \<and> callbacks 2 (acceptRide env0 2 accept2 True (acceptRide env0 1 accept1 True dispatch0))
     = [AcceptFailed already_accepted]"
  using acceptRide_one_after_the_other(1,2)
    [where a = accept1 and b = accept2 and s = dispatch0 and ride = ride0 and e = env0
       and e' = env0 and sid = 1 and sid' = 2, OF found1 pending0]
  by (simp add: env0_fields accept1_def accept2_def callbacks_def dispatch0_def)

text \<open>
  C1 fails when the two runs overlap. Both drivers' runs read the ride while it is
  pending; each then saves its own acceptance. Both callbacks receive a success with
  status \<^verbatim>\<open>accepted\<close>, neither receives \<^verbatim>\<open>AlreadyAccepted\<close>, and the stored ride ends
  bound to the driver who saved last.
\<close>

theorem acceptRide_race_both_succeed:
  "callbacks 1 (snd race) = [AcceptOk (accepted_payload env0 accept1 ride0 dispatch0)]
   \<and> callbacks 2 (snd race) = [AcceptOk (accepted_payload env0 accept2 ride0 dispatch0)]
   \<and> dd_status (accepted_payload env0 accept1 ride0 dispatch0) = ''accepted''
   \<and> dd_driverId (accepted_payload env0 accept1 ride0 dispatch0) = Some ''D1''
   \<and> dd_status (accepted_payload env0 accept2 ride0 dispatch0) = ''accepted''
   \<and> dd_driverId (accepted_payload env0 accept2 ride0 dispatch0) = Some ''D2''
   \<and> map (\<lambda>r. (status r, ride_driverId r)) (rideDocs (snd race)) = [(''accepted'', Some ''D2'')]
   \<and> map run_pc (fst race) = [AcceptDone, AcceptDone]"
proof -
  have docs: "map (\<lambda>r. (status r, ride_driverId r)) (rideDocs (snd race)) = [(''accepted'', Some ''D2'')]"
    by (simp add: race_steps Let_def last_step_frame emit_def respond_def saveAccepted_def)
       (simp add: dispatch0_def accepted_doc_def Let_def accept1_def accept2_def ride0_fields)
  have c1: "callbacks 1 (snd race) = [AcceptOk (accepted_payload env0 accept1 ride0 dispatch0)]"
    by (simp add: race_steps Let_def last_step_frame)
       (simp add: callbacks_def emit_def respond_def saveAccepted_def dispatch0_def)
  have c2: "callbacks 2 (snd race) = [AcceptOk (accepted_payload env0 accept2 ride0 dispatch0)]"
    by (simp add: race_steps Let_def last_step_frame)
       (simp add: callbacks_def emit_def respond_def saveAccepted_def dispatch0_def)
  have pcs: "map run_pc (fst race) = [AcceptDone, AcceptDone]"
    by (simp add: race_steps Let_def last_step_done)
  show ?thesis
    using docs c1 c2 pcs
    by (simp add: accepted_payload_fields accept1_def accept2_def)
qed

end
